theory Spec2Isabelle
  imports Complex_Main
begin

section \<open>Fin-NeuroSim: orchestration and resource-coordination layer\<close>

text \<open>
  A shallow embedding of the confidence engine, the circuit breaker, the context
  assembly, the rate limiter, the model loader and the two synthesis paths, each section
  under the name of its source file. Python floats are read as real numbers throughout;
  Python strings are read as \<open>string\<close>, one \<open>char\<close> for each character.
\<close>

subsection \<open>utils/time\_utils.py\<close>

text \<open>
  A \<open>datetime\<close> is its number of microseconds since the epoch, a \<open>timedelta\<close> a number
  of microseconds; \<open>total_seconds\<close> is the float division of the source.
\<close>

type_synonym datetime = int

definition total_seconds :: "int \<Rightarrow> real" where
  "total_seconds d = real_of_int d / 1000000"

definition age_hours :: "datetime \<Rightarrow> datetime \<Rightarrow> real" where
  "age_hours reference_time timestamp = total_seconds (reference_time - timestamp) / 3600"

text \<open>
  \<open>calculate_freshness_score(timestamp, max_age_hours, reference_time)\<close>; the last
  argument is the clock read by \<open>datetime.utcnow()\<close> when no reference time is given.
\<close>

definition calculate_freshness_score ::
    "datetime \<Rightarrow> int \<Rightarrow> datetime option \<Rightarrow> datetime \<Rightarrow> real" where
  "calculate_freshness_score timestamp max_age_hours reference_time utcnow =
     (let ref = (case reference_time of None \<Rightarrow> utcnow | Some r \<Rightarrow> r);
          age = age_hours ref timestamp
      in if age \<le> 0 then 1
         else if age \<ge> real_of_int max_age_hours then 0
         else max 0 (min 1 (1 - age / real_of_int max_age_hours)))"

subsection \<open>Python values and strings\<close>

text \<open>
  The untyped values that cross the provider boundary (parsed JSON, payload dictionaries).
  A dictionary keeps its insertion order, so it is an association list with distinct keys.
\<close>

datatype jv = JNull | JBool bool | JNum real | JStr string | JList "jv list"
  | JDict "(string \<times> jv) list"

type_synonym pydict = "(string \<times> jv) list"

text \<open>\<open>key in d\<close>, \<open>d.get(key, default)\<close> and \<open>d[key] = value\<close>.\<close>

definition has_key :: "string \<Rightarrow> (string \<times> 'v) list \<Rightarrow> bool" where
  "has_key k d = (k \<in> fst ` set d)"

definition dict_get :: "(string \<times> 'v) list \<Rightarrow> string \<Rightarrow> 'v \<Rightarrow> 'v" where
  "dict_get d k dflt = (case map_of d k of None \<Rightarrow> dflt | Some v \<Rightarrow> v)"

fun dict_set :: "(string \<times> 'v) list \<Rightarrow> string \<Rightarrow> 'v \<Rightarrow> (string \<times> 'v) list" where
  "dict_set [] k v = [(k, v)]"
| "dict_set ((k', v') # d) k v = (if k' = k then (k, v) # d else (k', v') # dict_set d k v)"

text \<open>\<open>d.update(other)\<close>: the keys of \<open>other\<close> are written in their order.\<close>

fun dict_update :: "(string \<times> 'v) list \<Rightarrow> (string \<times> 'v) list \<Rightarrow> (string \<times> 'v) list" where
  "dict_update d [] = d"
| "dict_update d ((k, v) # other) = dict_update (dict_set d k v) other"

text \<open>
  \<open>str.lower()\<close>: the ASCII capitals are mapped to their small letters, every other
  character is kept (the words the source compares with are ASCII).
\<close>

definition lower_char :: "char \<Rightarrow> char" where
  "lower_char c =
     (case map_of (zip ''ABCDEFGHIJKLMNOPQRSTUVWXYZ'' ''abcdefghijklmnopqrstuvwxyz'') c of
        None \<Rightarrow> c | Some l \<Rightarrow> l)"

definition lower :: "string \<Rightarrow> string" where
  "lower s = map lower_char s"

text \<open>\<open>str.strip()\<close>: the white space of \<open>str.isspace\<close> among the one-byte characters.\<close>

definition is_space :: "char \<Rightarrow> bool" where
  "is_space c = (let n = (of_char c :: nat) in
     (9 \<le> n \<and> n \<le> 13) \<or> (28 \<le> n \<and> n \<le> 32) \<or> n = 133 \<or> n = 160)"

definition strip :: "string \<Rightarrow> string" where
  "strip s = rev (dropWhile is_space (rev (dropWhile is_space s)))"

text \<open>\<open>w in s\<close> for strings: \<open>w\<close> occurs in \<open>s\<close> as a contiguous substring.\<close>

fun starts_with :: "string \<Rightarrow> string \<Rightarrow> bool" where
  "starts_with [] s = True"
| "starts_with (x # xs) [] = False"
| "starts_with (x # xs) (y # ys) = (x = y \<and> starts_with xs ys)"

fun str_contains :: "string \<Rightarrow> string \<Rightarrow> bool" where
  "str_contains w [] = (w = [])"
| "str_contains w (c # cs) = (starts_with w (c # cs) \<or> str_contains w cs)"

text \<open>\<open>sep.join(parts)\<close>.\<close>

fun join :: "string \<Rightarrow> string list \<Rightarrow> string" where
  "join sep [] = []"
| "join sep [p] = p"
| "join sep (p # q # ps) = p @ sep @ join sep (q # ps)"

subsection \<open>Exceptions\<close>

text \<open>
  The instances of Python's \<open>Exception\<close> that the modelled code raises or receives from
  a collaborator, each with its message; \<open>ExternalError\<close> stands for any exception of a
  library or provider call. \<open>exc_str\<close> is \<open>str(e)\<close>.
\<close>

datatype exc = RuntimeError string | TypeError string | AttributeError string
  | ValueError string | ValidationError string | ExternalError string

fun exc_str :: "exc \<Rightarrow> string" where
  "exc_str (RuntimeError m) = m"
| "exc_str (TypeError m) = m"
| "exc_str (AttributeError m) = m"
| "exc_str (ValueError m) = m"
| "exc_str (ValidationError m) = m"
| "exc_str (ExternalError m) = m"

subsection \<open>schemas/agent\_output.py\<close>

text \<open>
  The pydantic models, as records. The \<open>timestamp\<close> and \<open>raw_data\<close> fields of
  \<open>AgentOutput\<close> are read by none of the functions below and are left out.
\<close>

record SourceSummary =
  source :: string
  freshness :: real
  reliability :: real

record AgentOutput =
  agent_id :: string
  signal_type :: string
  risk_level :: string
  confidence :: real
  key_drivers :: "string list"
  source_summary :: "SourceSummary list"
  reasoning :: string

subsection \<open>core/confidence\_engine.py\<close>

definition SOURCE_RELIABILITY :: "(string \<times> real) list" where
  "SOURCE_RELIABILITY =
     [(''Reuters'', 0.95), (''Bloomberg'', 0.95), (''Financial Times'', 0.90),
      (''Wall Street Journal'', 0.90), (''FRED'', 0.98), (''Alpha Vantage'', 0.85),
      (''Tavily'', 0.80), (''NewsAPI'', 0.75), (''default'', 0.70)]"

text \<open>
  \<open>SOURCE_RELIABILITY["default"]\<close>: the key is in the table, so the subscript never
  raises.
\<close>

definition SOURCE_RELIABILITY_default :: real where
  "SOURCE_RELIABILITY_default = dict_get SOURCE_RELIABILITY ''default'' undefined"

text \<open>The loop of \<open>_calculate_source_reliability\<close> over \<open>(total_reliability, total_weight)\<close>.\<close>

fun reliability_loop :: "SourceSummary list \<Rightarrow> real \<times> real \<Rightarrow> real \<times> real" where
  "reliability_loop [] acc = acc"
| "reliability_loop (s # ss) (total_reliability, total_weight) =
     (let rel = dict_get SOURCE_RELIABILITY (source s) SOURCE_RELIABILITY_default;
          weighted_reliability = rel * reliability s;
          weight = freshness s
      in reliability_loop ss
           (total_reliability + weighted_reliability * weight, total_weight + weight))"

definition calculate_source_reliability :: "SourceSummary list \<Rightarrow> real" where
  "calculate_source_reliability summary =
     (if summary = [] then SOURCE_RELIABILITY_default
      else (case reliability_loop summary (0, 0) of
              (total_reliability, total_weight) \<Rightarrow>
                if total_weight > 0 then total_reliability / total_weight
                else SOURCE_RELIABILITY_default))"

definition calculate_data_freshness :: "AgentOutput \<Rightarrow> (string \<times> real) list \<Rightarrow> real" where
  "calculate_data_freshness agent_output context_freshness =
     (let agent_freshness =
            (if source_summary agent_output \<noteq> []
             then sum_list (map freshness (source_summary agent_output))
                    / real (length (source_summary agent_output))
             else 0.5);
          context_fresh = dict_get context_freshness ''overall'' 0.5;
          combined_freshness = (agent_freshness + context_fresh) / 2
      in max 0 (min 1 combined_freshness))"

text \<open>The loop of \<open>compute_dynamic_confidence\<close> over \<open>confidence_map\<close>.\<close>

fun confidence_loop ::
    "AgentOutput list \<Rightarrow> real \<Rightarrow> (string \<times> real) list \<Rightarrow> (string \<times> real) list
       \<Rightarrow> (string \<times> real) list" where
  "confidence_loop [] freshness_factor context_freshness confidence_map = confidence_map"
| "confidence_loop (agent_output # rest) freshness_factor context_freshness confidence_map =
     (let base_confidence = confidence agent_output;
          source_reliability = calculate_source_reliability (source_summary agent_output);
          data_freshness = calculate_data_freshness agent_output context_freshness;
          final_confidence = base_confidence * source_reliability * data_freshness * freshness_factor
      in confidence_loop rest freshness_factor context_freshness
           (dict_set confidence_map (agent_id agent_output) (max 0 (min 1 final_confidence))))"

text \<open>
  \<open>compute_dynamic_confidence(agent_outputs, freshness_factor=0.95, context_freshness=None)\<close>:
  an argument left out is \<open>None\<close> here.
\<close>

definition compute_dynamic_confidence ::
    "AgentOutput list \<Rightarrow> real option \<Rightarrow> (string \<times> real) list option \<Rightarrow> (string \<times> real) list" where
  "compute_dynamic_confidence agent_outputs freshness_factor context_freshness =
     confidence_loop agent_outputs
       (case freshness_factor of None \<Rightarrow> 0.95 | Some f \<Rightarrow> f)
       (case context_freshness of None \<Rightarrow> [] | Some c \<Rightarrow> c)
       []"

definition risk_levels :: "(string \<times> int) list" where
  "risk_levels = [(''critical'', 4), (''high'', 3), (''medium'', 2), (''low'', 1)]"

definition risk_value :: "AgentOutput \<Rightarrow> int" where
  "risk_value output = dict_get risk_levels (lower (risk_level output)) 2"

definition calculate_inter_agent_agreement :: "AgentOutput list \<Rightarrow> real" where
  "calculate_inter_agent_agreement agent_outputs =
     (if length agent_outputs < 2 then 1
      else
        let risk_values = map risk_value agent_outputs;
            agreement =
              (if length risk_values > 1 then
                 let mean = real_of_int (sum_list risk_values) / real (length risk_values);
                     variance = sum_list (map (\<lambda>x. (real_of_int x - mean) ^ 2) risk_values)
                                  / real (length risk_values);
                     std_dev = sqrt variance
                 in 1 - min 1 (std_dev / 2)
               else 1)
        in max 0 (min 1 agreement))"

text \<open>
  The agreement score in the words of the specification: the population standard
  deviation of a list of ordinals, and the clamp to the unit interval.
\<close>

definition clamp01 :: "real \<Rightarrow> real" where
  "clamp01 x = max 0 (min 1 x)"

definition population_stddev :: "real list \<Rightarrow> real" where
  "population_stddev xs =
     sqrt (sum_list (map (\<lambda>x. (x - sum_list xs / real (length xs)) ^ 2) xs) / real (length xs))"


subsection \<open>core/circuit\_breaker.py\<close>

text \<open>
  \<open>CircuitBreakerEvent\<close> (schemas/agent\_output.py). The source builds
  \<open>conflicting_agents\<close> as \<open>list(set(...))\<close>, a duplicate-free list in an order Python
  leaves open: the field is the set of its elements. The field \<open>action\<close> is named
  \<open>event_action\<close>, and \<open>details\<close> is a record of its two entries.
\<close>

record EventDetails =
  contradiction_count :: nat
  contradiction_types :: "string list"

record CircuitBreakerEvent =
  event :: string
  conflicting_agents :: "string set"
  arbiter :: string
  event_action :: string
  details :: EventDetails

definition CONTRADICTION_RULES :: "((string \<times> string) \<times> string) list" where
  "CONTRADICTION_RULES =
     [((''RiskAgent'', ''TechnicalAgent''), ''MacroAgent''),
      ((''TechnicalAgent'', ''RiskAgent''), ''MacroAgent''),
      ((''MacroAgent'', ''SentimentAgent''), ''RiskAgent''),
      ((''SentimentAgent'', ''MacroAgent''), ''RiskAgent'')]"

definition RISK_LEVELS :: "(string \<times> int) list" where
  "RISK_LEVELS = [(''critical'', 4), (''high'', 3), (''medium'', 2), (''low'', 1)]"

definition opposite_pairs :: "(string \<times> string) list" where
  "opposite_pairs =
     [(''bullish'', ''bearish''), (''rise'', ''fall''), (''growth'', ''decline''),
      (''positive'', ''negative''), (''buy'', ''sell''), (''crash'', ''rally'')]"

definition is_contradictory :: "AgentOutput \<Rightarrow> AgentOutput \<Rightarrow> bool" where
  "is_contradictory output1 output2 =
     (let risk1 = dict_get RISK_LEVELS (lower (risk_level output1)) 2;
          risk2 = dict_get RISK_LEVELS (lower (risk_level output2)) 2;
          risk_diff = \<bar>risk1 - risk2\<bar>
      in if risk_diff \<ge> 3 then True
         else
           let drivers1 = lower (join '' '' (key_drivers output1));
               drivers2 = lower (join '' '' (key_drivers output2))
           in list_ex (\<lambda>(word1, word2).
                  (str_contains word1 drivers1 \<and> str_contains word2 drivers2)
                \<or> (str_contains word2 drivers1 \<and> str_contains word1 drivers2)) opposite_pairs)"

text \<open>\<open>{output.agent_id: output for output in agent_outputs}\<close>: a later result replaces an
  earlier one of the same identity.\<close>

fun agent_dict_of :: "AgentOutput list \<Rightarrow> (string \<times> AgentOutput) list \<Rightarrow> (string \<times> AgentOutput) list" where
  "agent_dict_of [] d = d"
| "agent_dict_of (output # rest) d = agent_dict_of rest (dict_set d (agent_id output) output)"

text \<open>The loop over \<open>CONTRADICTION_RULES.items()\<close>, on \<open>(contradictions, arbiter)\<close>.\<close>

fun rules_loop ::
    "((string \<times> string) \<times> string) list \<Rightarrow> (string \<times> AgentOutput) list
       \<Rightarrow> (string \<times> string) list \<times> string option \<Rightarrow> (string \<times> string) list \<times> string option" where
  "rules_loop [] agent_dict acc = acc"
| "rules_loop (((agent1, agent2), arbiter_agent) # rules) agent_dict (contradictions, arb) =
     rules_loop rules agent_dict
       (case (map_of agent_dict agent1, map_of agent_dict agent2) of
          (Some output1, Some output2) \<Rightarrow>
            if is_contradictory output1 output2
            then (contradictions @ [(agent1, agent2)],
                  (case arb of None \<Rightarrow> Some arbiter_agent | Some a \<Rightarrow> Some a))
            else (contradictions, arb)
        | _ \<Rightarrow> (contradictions, arb))"

definition check_contradictions :: "AgentOutput list \<Rightarrow> CircuitBreakerEvent option" where
  "check_contradictions agent_outputs =
     (if length agent_outputs < 2 then None
      else
        let agent_dict = agent_dict_of agent_outputs [] in
        case rules_loop CONTRADICTION_RULES agent_dict ([], None) of
          (contradictions, arb) \<Rightarrow>
            if contradictions \<noteq> [] then
              Some \<lparr>event = ''CONTRADICTION_DETECTED'',
                    conflicting_agents = set (concat (map (\<lambda>(agent1, agent2). [agent1, agent2]) contradictions)),
                    arbiter = (case arb of None \<Rightarrow> ''SynthesisAgent''
                               | Some a \<Rightarrow> if a = [] then ''SynthesisAgent'' else a),
                    event_action = ''REWEIGHT_AND_REEVALUATE'',
                    details = \<lparr>contradiction_count = length contradictions,
                               contradiction_types = map (\<lambda>c. fst c @ ''_vs_'' @ snd c) contradictions\<rparr>\<rparr>
            else None)"

subsection \<open>core/context\_builder.py\<close>

text \<open>
  A result of \<open>asyncio.gather(..., return_exceptions=True)\<close>: the exception a branch
  raised, or the value it returned.
\<close>

datatype gathered = Raised exc | Returned jv

text \<open>
  The three fetch branches, each applied to the outcome of its provider call (an
  exception or the payload). The macro branch gathers its four indicators with
  \<open>return_exceptions=True\<close>, so its outcome is an exception of the gathering itself or
  the four indicator results.
\<close>

definition get_market_data :: "string \<Rightarrow> exc + jv \<Rightarrow> jv" where
  "get_market_data symbol fetched =
     (case fetched of
        Inr data \<Rightarrow> data
      | Inl e \<Rightarrow> JDict [(''error'', JStr (exc_str e)), (''symbol'', JStr symbol)])"

definition indicator :: "exc + jv \<Rightarrow> jv" where
  "indicator r = (case r of Inr v \<Rightarrow> v | Inl e \<Rightarrow> JDict [(''error'', JStr (exc_str e))])"

definition get_macro_data ::
    "string \<Rightarrow> exc + (exc + jv) \<times> (exc + jv) \<times> (exc + jv) \<times> (exc + jv) \<Rightarrow> jv" where
  "get_macro_data region fetched =
     (case fetched of
        Inr (cpi, gdp, unemployment, interest) \<Rightarrow>
          JDict [(''region'', JStr region), (''cpi'', indicator cpi), (''gdp'', indicator gdp),
                 (''unemployment'', indicator unemployment),
                 (''interest_rates'', indicator interest)]
      | Inl e \<Rightarrow> JDict [(''error'', JStr (exc_str e)), (''region'', JStr region)])"

definition get_news_data :: "exc + jv \<Rightarrow> jv" where
  "get_news_data fetched =
     (case fetched of
        Inr news_data \<Rightarrow> news_data
      | Inl e \<Rightarrow> JDict [(''error'', JStr (exc_str e)), (''results'', JList [])])"

text \<open>
  The buckets of the context dictionary that the classification loop writes; the other
  entries of the dictionary are not touched by the loop.
\<close>

record Context =
  market_data :: "pydict list"
  macro_data :: pydict
  news_data :: pydict

definition empty_context :: Context where
  "empty_context = \<lparr>market_data = [], macro_data = [], news_data = []\<rparr>"

text \<open>The body of the classification loop of \<open>build_context\<close>, and the loop.\<close>

fun categorize_result :: "gathered \<Rightarrow> Context \<Rightarrow> Context" where
  "categorize_result (Raised e) ctxt = ctxt"
| "categorize_result (Returned (JDict result)) ctxt =
     (if has_key ''symbol'' result \<or> has_key ''error'' result then
        (if \<not> has_key ''error'' result
         then ctxt\<lparr>market_data := market_data ctxt @ [result]\<rparr>
         else ctxt)
      else if has_key ''series_id'' result \<or> has_key ''region'' result then
        ctxt\<lparr>macro_data := dict_update (macro_data ctxt) result\<rparr>
      else if has_key ''results'' result \<or> has_key ''query'' result then
        ctxt\<lparr>news_data := result\<rparr>
      else ctxt)"
| "categorize_result (Returned v) ctxt = ctxt"

fun categorize :: "gathered list \<Rightarrow> Context \<Rightarrow> Context" where
  "categorize [] ctxt = ctxt"
| "categorize (result # results) ctxt = categorize results (categorize_result result ctxt)"

text \<open>A fan-out result that failed: a raised exception or a payload with an \<open>error\<close> key.\<close>

fun failed_result :: "gathered \<Rightarrow> bool" where
  "failed_result (Raised e) = True"
| "failed_result (Returned (JDict result)) = has_key ''error'' result"
| "failed_result (Returned v) = False"

subsection \<open>data\_sources/rate\_limiter.py\<close>

text \<open>
  \<open>_limits\<close> maps a resource name to its configuration; \<open>_call_history\<close> is a
  \<open>defaultdict(list)\<close>, a total function with the empty list as default. Times are the
  seconds of \<open>time.time()\<close>.
\<close>

record limit_config =
  max_calls :: int
  time_window :: int

record RateLimiter =
  limits :: "(string \<times> limit_config) list"
  call_history :: "string \<Rightarrow> real list"

definition new_rate_limiter :: RateLimiter where
  "new_rate_limiter = \<lparr>limits = [], call_history = (\<lambda>api_name. [])\<rparr>"

definition add_limit :: "RateLimiter \<Rightarrow> string \<Rightarrow> int \<Rightarrow> int \<Rightarrow> RateLimiter" where
  "add_limit rl api_name mc tw =
     rl\<lparr>limits := dict_set (limits rl) api_name \<lparr>max_calls = mc, time_window = tw\<rparr>\<rparr>"

text \<open>
  \<open>wait_if_needed\<close> is a coroutine with one suspension point, \<open>await asyncio.sleep\<close>.
  Under the cooperative scheduling of asyncio the code before the suspension runs without
  interruption, and so does the code after it. \<open>wait_enter\<close> is the first part, run
  at time \<open>now\<close>: it ends by returning at once (unregistered name), by going on to the
  recording without sleeping, by suspending for \<open>wait_time\<close> seconds, or by the
  \<open>ValueError\<close> of \<open>min\<close> on an empty history. \<open>wait_record\<close> is the second part,
  the recording of the call at the time it runs.
\<close>

datatype entry = Unlimited | Proceed | Sleep real | Raise exc

definition wait_enter :: "RateLimiter \<Rightarrow> string \<Rightarrow> real \<Rightarrow> entry \<times> RateLimiter" where
  "wait_enter rl api_name now =
     (case map_of (limits rl) api_name of
        None \<Rightarrow> (Unlimited, rl)
      | Some cfg \<Rightarrow>
          let mc = max_calls cfg;
              tw = time_window cfg;
              cutoff_time = now - real_of_int tw;
              history = filter (\<lambda>call_time. call_time > cutoff_time) (call_history rl api_name);
              rl' = rl\<lparr>call_history := (call_history rl)(api_name := history)\<rparr>
          in if int (length history) \<ge> mc then
               (case history of
                  [] \<Rightarrow> (Raise (ValueError ''min() arg is an empty sequence''), rl')
                | h # hs \<Rightarrow>
                    let oldest_call = foldl min h hs;
                        wait_time = real_of_int tw - (now - oldest_call) + 0.1
                    in if wait_time > 0 then (Sleep wait_time, rl') else (Proceed, rl'))
             else (Proceed, rl'))"

definition wait_record :: "RateLimiter \<Rightarrow> string \<Rightarrow> real \<Rightarrow> RateLimiter" where
  "wait_record rl api_name now =
     rl\<lparr>call_history := (call_history rl)(api_name := call_history rl api_name @ [now])\<rparr>"

text \<open>
  The event loop with its callers. A state holds the limiter, the clock and the suspended
  callers, each with its resource name and the time its sleep ends. \<open>Call name t\<close>: a
  caller invokes \<open>wait_if_needed(name)\<close> at time \<open>t\<close>. \<open>Wake i t\<close>: the \<open>i\<close>-th
  suspended caller resumes at time \<open>t\<close>, not before its sleep has ended. An event that
  cannot happen in the state (the clock going back, no such caller, a sleep not over)
  gives \<open>None\<close>.
\<close>

record loop_state =
  limiter :: RateLimiter
  clock :: real
  sleepers :: "(string \<times> real) list"

datatype loop_event = Call string real | Wake nat real

fun loop_step :: "loop_state \<Rightarrow> loop_event \<Rightarrow> loop_state option" where
  "loop_step s (Call api_name t) =
     (if t < clock s then None
      else case wait_enter (limiter s) api_name t of
             (Unlimited, rl) \<Rightarrow> Some (s\<lparr>limiter := rl, clock := t\<rparr>)
           | (Proceed, rl) \<Rightarrow> Some (s\<lparr>limiter := wait_record rl api_name t, clock := t\<rparr>)
           | (Sleep wait_time, rl) \<Rightarrow>
               Some (s\<lparr>limiter := rl, clock := t,
                       sleepers := sleepers s @ [(api_name, t + wait_time)]\<rparr>)
           | (Raise e, rl) \<Rightarrow> Some (s\<lparr>limiter := rl, clock := t\<rparr>))"
| "loop_step s (Wake i t) =
     (if t < clock s \<or> i \<ge> length (sleepers s) then None
      else case sleepers s ! i of
             (api_name, wake_time) \<Rightarrow>
               if t < wake_time then None
               else Some (s\<lparr>limiter := wait_record (limiter s) api_name t, clock := t,
                             sleepers := take i (sleepers s) @ drop (Suc i) (sleepers s)\<rparr>))"

fun loop_run :: "loop_state \<Rightarrow> loop_event list \<Rightarrow> loop_state option" where
  "loop_run s [] = Some s"
| "loop_run s (ev # evs) = (case loop_step s ev of None \<Rightarrow> None | Some s' \<Rightarrow> loop_run s' evs)"

text \<open>The recorded calls within the rolling window \<open>(start, start + window]\<close>.\<close>

definition calls_in_window :: "real list \<Rightarrow> real \<Rightarrow> real \<Rightarrow> nat" where
  "calls_in_window history start window =
     length (filter (\<lambda>call_time. start < call_time \<and> call_time \<le> start + window) history)"

subsection \<open>schemas/final\_report.py\<close>

text \<open>
  The \<open>timestamp\<close> and \<open>metadata\<close> fields of \<open>FinalReport\<close> are set by no call below and
  are left out.
\<close>

record ActionPlan =
  priority :: string
  action :: string
  rationale :: string

record FinalReport =
  query :: string
  final_risk_level :: string
  overall_confidence :: real
  strategic_rationale :: string
  action_plan :: "ActionPlan list"
  agent_contributions :: "AgentOutput list"
  data_freshness_score :: real
  warnings :: "string list"

text \<open>
  The type validation of pydantic (which values it accepts for a \<open>str\<close>, a \<open>float\<close> and
  a \<open>List[str]\<close> field, and what it makes of them) belongs to the library and is a
  parameter. \<open>strict_validation\<close> is the validation that accepts a value of the field's
  own type only.
\<close>

record pydantic =
  validate_str :: "jv \<Rightarrow> string option"
  validate_float :: "jv \<Rightarrow> real option"
  validate_str_list :: "jv \<Rightarrow> string list option"

fun strict_str :: "jv \<Rightarrow> string option" where
  "strict_str (JStr s) = Some s"
| "strict_str v = None"

fun strict_float :: "jv \<Rightarrow> real option" where
  "strict_float (JNum x) = Some x"
| "strict_float v = None"

fun strict_strs :: "jv list \<Rightarrow> string list option" where
  "strict_strs [] = Some []"
| "strict_strs (v # vs) =
     (case (strict_str v, strict_strs vs) of (Some s, Some ss) \<Rightarrow> Some (s # ss) | _ \<Rightarrow> None)"

fun strict_str_list :: "jv \<Rightarrow> string list option" where
  "strict_str_list (JList vs) = strict_strs vs"
| "strict_str_list v = None"

definition strict_validation :: pydantic where
  "strict_validation =
     \<lparr>validate_str = strict_str, validate_float = strict_float, validate_str_list = strict_str_list\<rparr>"

text \<open>
  The constructor call \<open>FinalReport(...)\<close> with the constraints of the schema:
  \<open>overall_confidence\<close> and \<open>data_freshness_score\<close> in \<open>[0, 1]\<close>,
  \<open>strategic_rationale\<close> of at least 300 characters.
\<close>

definition validation_error :: exc where
  "validation_error = ValidationError ''validation error for FinalReport''"

definition new_FinalReport ::
    "pydantic \<Rightarrow> string \<Rightarrow> jv \<Rightarrow> jv \<Rightarrow> jv \<Rightarrow> ActionPlan list \<Rightarrow> AgentOutput list \<Rightarrow> real \<Rightarrow> jv
       \<Rightarrow> exc + FinalReport" where
  "new_FinalReport pyd q risk conf rat plan contributions dfs warn =
     (case (validate_str pyd risk, validate_float pyd conf, validate_str pyd rat,
            validate_str_list pyd warn) of
        (Some risk', Some conf', Some rat', Some warn') \<Rightarrow>
          if 0 \<le> conf' \<and> conf' \<le> 1 \<and> 300 \<le> length rat' \<and> 0 \<le> dfs \<and> dfs \<le> 1
          then Inr \<lparr>query = q, final_risk_level = risk', overall_confidence = conf',
                    strategic_rationale = rat', action_plan = plan,
                    agent_contributions = contributions, data_freshness_score = dfs,
                    warnings = warn'\<rparr>
          else Inl validation_error
      | _ \<Rightarrow> Inl validation_error)"

subsection \<open>llm/stage2\_llama.py: parsing the response\<close>

text \<open>Truth value and iteration of a Python value.\<close>

fun py_truthy :: "jv \<Rightarrow> bool" where
  "py_truthy JNull = False"
| "py_truthy (JBool b) = b"
| "py_truthy (JNum x) = (x \<noteq> 0)"
| "py_truthy (JStr s) = (s \<noteq> [])"
| "py_truthy (JList vs) = (vs \<noteq> [])"
| "py_truthy (JDict d) = (d \<noteq> [])"

fun py_iter :: "jv \<Rightarrow> exc + jv list" where
  "py_iter (JList vs) = Inr vs"
| "py_iter (JStr s) = Inr (map (\<lambda>c. JStr [c]) s)"
| "py_iter (JDict d) = Inr (map (\<lambda>kv. JStr (fst kv)) d)"
| "py_iter v = Inl (TypeError ''object is not iterable'')"

text \<open>\<open>s.find(c)\<close>, \<open>s.rfind(c)\<close> for a character and the slice \<open>s[b:e]\<close> with
  \<open>0 \<le> b\<close>, \<open>0 \<le> e\<close>.\<close>

definition find_char :: "string \<Rightarrow> char \<Rightarrow> int" where
  "find_char s c = (if c \<in> set s then int (length (takeWhile (\<lambda>x. x \<noteq> c) s)) else - 1)"

definition rfind_char :: "string \<Rightarrow> char \<Rightarrow> int" where
  "rfind_char s c =
     (if c \<in> set s then int (length s) - 1 - int (length (takeWhile (\<lambda>x. x \<noteq> c) (rev s)))
      else - 1)"

definition slice :: "string \<Rightarrow> int \<Rightarrow> int \<Rightarrow> string" where
  "slice s b e = take (nat e - nat b) (drop (nat b) s)"

text \<open>
  \<open>_parse_text_response\<close> and \<open>_parse_llm_response\<close>; \<open>json.loads\<close> is a parameter.
\<close>

definition parse_text_response :: "string \<Rightarrow> jv" where
  "parse_text_response response =
     (let text = lower response;
          risk = (if list_ex (\<lambda>word. str_contains word text) [''critical'', ''crisis'', ''urgent'']
                  then ''critical''
                  else if list_ex (\<lambda>word. str_contains word text) [''high'', ''warning'', ''concern'']
                  then ''high''
                  else if list_ex (\<lambda>word. str_contains word text) [''low'', ''stable'', ''safe'']
                  then ''low''
                  else ''medium'')
      in JDict [(''final_risk_level'', JStr risk), (''overall_confidence'', JNum 0.6),
                (''strategic_rationale'', JStr response), (''action_plan'', JList []),
                (''warnings'', JList [])])"

definition parse_llm_response :: "(string \<Rightarrow> exc + jv) \<Rightarrow> string \<Rightarrow> jv" where
  "parse_llm_response json_loads response =
     (let json_start = find_char response (CHR ''{'');
          json_end = rfind_char response (CHR ''}'') + 1
      in if json_start \<ge> 0 \<and> json_end > json_start then
           (case json_loads (slice response json_start json_end) of
              Inr result \<Rightarrow> result
            | Inl e \<Rightarrow> parse_text_response response)
         else parse_text_response response)"

text \<open>
  The messages of the default entries; letters outside ASCII are written as their base
  letters.
\<close>

definition suggested_by_llm :: string where
  "suggested_by_llm = ''LLM tarafindan onerildi''"

definition default_plan_high :: ActionPlan where
  "default_plan_high =
     \<lparr>priority = ''high'',
      action = ''Piyasayi yakindan izleyin ve risk yonetimi protokollerini aktiflestirin'',
      rationale = ''Yuksek risk seviyesi tespit edildi, dikkatli olunmali''\<rparr>"

definition default_plan_medium :: ActionPlan where
  "default_plan_medium =
     \<lparr>priority = ''medium'',
      action = ''Risk analizi tamamlandi. Piyasa kosullarini duzenli olarak izleyin.'',
      rationale = ''Detayli aksiyon plani uretilemedi, genel oneri''\<rparr>"

definition no_strip :: exc where
  "no_strip = AttributeError ''object has no attribute strip''"

subsection \<open>llm/stage2\_llama.py: \_parse\_action\_plan\<close>

text \<open>One pass of the loop body: the entry to append, if any, or the exception.\<close>

fun Stage2Llama_plan_item :: "jv \<Rightarrow> exc + ActionPlan option" where
  "Stage2Llama_plan_item (JDict item) =
     (case dict_get item ''action'' (JStr []) of
        JStr a \<Rightarrow>
          (case dict_get item ''rationale'' (JStr []) of
             JStr r \<Rightarrow>
               (case dict_get item ''priority'' (JStr ''medium'') of
                  JStr p \<Rightarrow>
                    let act = strip a; rat = strip r; prio = lower (strip p)
                    in if act \<noteq> [] then
                         Inr (Some \<lparr>priority = (if prio \<in> set [''immediate'', ''high'', ''medium'', ''low'']
                                                 then prio else ''medium''),
                                     action = act,
                                     rationale = (if rat \<noteq> [] then rat else suggested_by_llm)\<rparr>)
                       else Inr None
                | _ \<Rightarrow> Inl no_strip)
           | _ \<Rightarrow> Inl no_strip)
      | _ \<Rightarrow> Inl no_strip)"
| "Stage2Llama_plan_item (JStr item) =
     (if strip item \<noteq> []
      then Inr (Some \<lparr>priority = ''medium'', action = strip item, rationale = suggested_by_llm\<rparr>)
      else Inr None)"
| "Stage2Llama_plan_item v = Inr None"

fun Stage2Llama_plan_loop :: "jv list \<Rightarrow> ActionPlan list \<Rightarrow> exc + ActionPlan list" where
  "Stage2Llama_plan_loop [] action_plans = Inr action_plans"
| "Stage2Llama_plan_loop (item # items) action_plans =
     (case Stage2Llama_plan_item item of
        Inl e \<Rightarrow> Inl e
      | Inr None \<Rightarrow> Stage2Llama_plan_loop items action_plans
      | Inr (Some plan) \<Rightarrow> Stage2Llama_plan_loop items (action_plans @ [plan]))"

text \<open>
  \<open>_parse_action_plan\<close>; the first argument is the attribute \<open>_last_stage1_risk\<close>,
  \<open>None\<close> when it is not set.
\<close>

definition Stage2Llama_parse_action_plan :: "string option \<Rightarrow> jv \<Rightarrow> exc + ActionPlan list" where
  "Stage2Llama_parse_action_plan last_stage1_risk action_plan_data =
     (if \<not> py_truthy action_plan_data then
        (let risk = (case last_stage1_risk of None \<Rightarrow> ''medium'' | Some r \<Rightarrow> r)
         in if risk \<in> set [''critical'', ''high''] then Inr [default_plan_high] else Inr [])
      else
        case py_iter action_plan_data of
          Inl e \<Rightarrow> Inl e
        | Inr items \<Rightarrow>
            (case Stage2Llama_plan_loop items [] of
               Inl e \<Rightarrow> Inl e
             | Inr action_plans \<Rightarrow>
                 if action_plans = [] then Inr [default_plan_medium] else Inr action_plans))"

text \<open>The \<open>AttributeError\<close> of \<open>.get\<close> on a value that is no dictionary.\<close>

definition no_get :: exc where
  "no_get = AttributeError ''object has no attribute get''"

subsection \<open>llm/model\_loader.py\<close>

text \<open>
  Handles of the loaded weights and tokenizer, each remembering the model name it was
  loaded from. The library calls of \<open>load_model\<close> that may fail are parameters: the
  tokenizer load, its retry with \<open>use_fast=False\<close>, and the model load. The release
  calls of \<open>unload_model\<close> (\<open>cpu\<close>, \<open>gc.collect\<close>, \<open>empty_cache\<close>) change nothing the
  loader records and are taken to return.
\<close>

datatype model = Model string

datatype tokenizer = Tokenizer string

record hub =
  tokenizer_from_pretrained :: "string \<Rightarrow> exc + tokenizer"
  tokenizer_from_pretrained_slow :: "string \<Rightarrow> exc + tokenizer"
  model_from_pretrained :: "string \<Rightarrow> exc + model"

record ModelLoader =
  current_model :: "model option"
  current_tokenizer :: "tokenizer option"
  current_model_name :: "string option"

definition new_ModelLoader :: ModelLoader where
  "new_ModelLoader = \<lparr>current_model = None, current_tokenizer = None, current_model_name = None\<rparr>"

definition unload_model :: "ModelLoader \<Rightarrow> ModelLoader" where
  "unload_model ld =
     (if current_model ld \<noteq> None
      then ld\<lparr>current_model := None, current_tokenizer := None, current_model_name := None\<rparr>
      else ld)"

definition load_model :: "hub \<Rightarrow> ModelLoader \<Rightarrow> string \<Rightarrow> (exc + model \<times> tokenizer) \<times> ModelLoader" where
  "load_model h ld model_name =
     (let ld1 = (if current_model ld \<noteq> None then unload_model ld else ld) in
      case (case tokenizer_from_pretrained h model_name of
              Inr t \<Rightarrow> Inr t
            | Inl e \<Rightarrow> tokenizer_from_pretrained_slow h model_name) of
        Inl e \<Rightarrow> (Inl e, ld1)
      | Inr tok \<Rightarrow>
          (case model_from_pretrained h model_name of
             Inl e \<Rightarrow> (Inl e, ld1)
           | Inr m \<Rightarrow>
               (Inr (m, tok),
                ld1\<lparr>current_model := Some m, current_tokenizer := Some tok,
                     current_model_name := Some model_name\<rparr>)))"

definition get_current_model :: "ModelLoader \<Rightarrow> (model \<times> tokenizer) option" where
  "get_current_model ld =
     (case (current_model ld, current_tokenizer ld) of
        (Some m, Some t) \<Rightarrow> Some (m, t)
      | _ \<Rightarrow> None)"

definition is_model_loaded :: "ModelLoader \<Rightarrow> string option \<Rightarrow> bool" where
  "is_model_loaded ld model_name =
     (case model_name of
        None \<Rightarrow> current_model ld \<noteq> None
      | Some n \<Rightarrow> current_model_name ld = Some n)"

subsection \<open>core/intent\_engine.py\<close>

text \<open>The dataclass \<open>Intent\<close>; its last field is written \<open>key_words\<close>.\<close>

record Intent =
  assets :: "string list"
  region :: string
  analysis_type :: string
  time_horizon :: string
  key_words :: "string list"

subsection \<open>llm/stage1\_mistral.py\<close>

definition Stage1Mistral_MODEL_NAME :: string where
  "Stage1Mistral_MODEL_NAME = ''mistralai/Mistral-7B-v0.3''"

text \<open>
  The fields of the result that \<open>analyze\<close> takes from the provider's answer, after
  validation; the rest of the result is fixed by \<open>analyze\<close>.
\<close>

record analysis_fields =
  answer_risk_level :: string
  answer_confidence :: real
  answer_key_drivers :: "string list"
  answer_reasoning :: string

text \<open>
  \<open>analyze\<close>. The parameter \<open>generate\<close> is the outcome of building the prompt, running
  the model, and parsing and validating its answer.
\<close>

definition Stage1Mistral_analyze ::
    "hub \<Rightarrow> (model \<times> tokenizer \<Rightarrow> string \<Rightarrow> Intent \<Rightarrow> exc + analysis_fields) \<Rightarrow> ModelLoader
       \<Rightarrow> string \<Rightarrow> Intent \<Rightarrow> (exc + AgentOutput) \<times> ModelLoader" where
  "Stage1Mistral_analyze h generate ld compact_context intent =
     (case (if \<not> is_model_loaded ld (Some Stage1Mistral_MODEL_NAME)
            then (case load_model h ld Stage1Mistral_MODEL_NAME of
                    (Inl e, ld') \<Rightarrow> (Some e, ld')
                  | (Inr loaded, ld') \<Rightarrow> (None, ld'))
            else (None, ld)) of
        (Some e, ld1) \<Rightarrow> (Inl e, ld1)
      | (None, ld1) \<Rightarrow>
          (case get_current_model ld1 of
             None \<Rightarrow> (Inl (TypeError ''cannot unpack non-iterable NoneType object''), ld1)
           | Some mt \<Rightarrow>
               (case generate mt compact_context intent of
                  Inl e \<Rightarrow> (Inl e, ld1)
                | Inr answer \<Rightarrow>
                    (Inr \<lparr>agent_id = ''Stage1Mistral'', signal_type = ''anomaly'',
                          risk_level = answer_risk_level answer,
                          confidence = answer_confidence answer,
                          key_drivers = answer_key_drivers answer,
                          source_summary = [],
                          reasoning = answer_reasoning answer\<rparr>, ld1))))"

subsection \<open>llm/stage2\_llama.py: synthesize\<close>

definition MODEL_NAMES :: "string list" where
  "MODEL_NAMES =
     [''mistralai/Mistral-7B-Instruct-v0.2'', ''mistralai/Mistral-7B-v0.3'',
      ''microsoft/Phi-3-medium-4k-instruct'', ''meta-llama/Meta-Llama-3-8B-Instruct'']"

text \<open>
  The loop over the model names. It yields the name that loaded (\<open>model_loaded\<close> is
  true and \<open>MODEL_NAME\<close> is set to it) or \<open>None\<close>, the names it tried in order (each
  is logged before its load), and the loader.
\<close>

fun fallback_loop ::
    "hub \<Rightarrow> string list \<Rightarrow> ModelLoader \<Rightarrow> string list \<Rightarrow> string option \<times> string list \<times> ModelLoader" where
  "fallback_loop h [] ld tried = (None, tried, ld)"
| "fallback_loop h (model_name # names) ld tried =
     (case load_model h ld model_name of
        (Inr loaded, ld') \<Rightarrow> (Some model_name, tried @ [model_name], ld')
      | (Inl e, ld') \<Rightarrow> fallback_loop h names ld' (tried @ [model_name]))"

text \<open>The acquisition of the model at the start of \<open>synthesize\<close>.\<close>

definition none_loaded :: exc where
  "none_loaded = RuntimeError ''Hicbir model yuklenemedi''"

definition acquire_model :: "hub \<Rightarrow> ModelLoader \<Rightarrow> (exc + model \<times> tokenizer) \<times> ModelLoader" where
  "acquire_model h ld =
     (case (if \<not> is_model_loaded ld None
            then (case fallback_loop h MODEL_NAMES ld [] of
                    (None, tried, ld') \<Rightarrow> (Some none_loaded, ld')
                  | (Some model_name, tried, ld') \<Rightarrow> (None, ld'))
            else (None, ld)) of
        (Some e, ld1) \<Rightarrow> (Inl e, ld1)
      | (None, ld1) \<Rightarrow>
          (case get_current_model ld1 of
             None \<Rightarrow> (Inl (RuntimeError ''Model yuklenemedi!''), ld1)
           | Some mt \<Rightarrow> (Inr mt, ld1)))"

text \<open>
  The construction of the report from the decoded response (the end of \<open>synthesize\<close>).
\<close>

definition Stage2Llama_report ::
    "pydantic \<Rightarrow> (string \<Rightarrow> exc + jv) \<Rightarrow> string \<Rightarrow> AgentOutput \<Rightarrow> (string \<times> real) list \<Rightarrow> string
       \<Rightarrow> exc + FinalReport" where
  "Stage2Llama_report pyd json_loads response stage1_report confidence_metrics user_query =
     (case parse_llm_response json_loads response of
        JDict synthesis_result \<Rightarrow>
          (case Stage2Llama_parse_action_plan (Some (risk_level stage1_report))
                  (dict_get synthesis_result ''action_plan'' (JList [])) of
             Inl e \<Rightarrow> Inl e
           | Inr plan \<Rightarrow>
               new_FinalReport pyd user_query
                 (dict_get synthesis_result ''final_risk_level'' (JStr ''medium''))
                 (dict_get synthesis_result ''overall_confidence'' (JNum 0.5))
                 (dict_get synthesis_result ''strategic_rationale'' (JStr response))
                 plan [stage1_report]
                 (dict_get confidence_metrics ''data_freshness'' 0.5)
                 (dict_get synthesis_result ''warnings'' (JList [])))
      | _ \<Rightarrow> Inl no_get)"

text \<open>
  \<open>synthesize\<close>. The parameter \<open>generate\<close> is the outcome of building the prompt and
  running the model: the decoded response.
\<close>

definition Stage2Llama_synthesize ::
    "hub \<Rightarrow> (model \<times> tokenizer \<Rightarrow> AgentOutput \<Rightarrow> (string \<times> real) list \<Rightarrow> string \<Rightarrow> string \<Rightarrow> exc + string)
       \<Rightarrow> pydantic \<Rightarrow> (string \<Rightarrow> exc + jv) \<Rightarrow> ModelLoader
       \<Rightarrow> AgentOutput \<Rightarrow> (string \<times> real) list \<Rightarrow> string \<Rightarrow> string
       \<Rightarrow> (exc + FinalReport) \<times> ModelLoader" where
  "Stage2Llama_synthesize h generate pyd json_loads ld stage1_report confidence_metrics
       compact_context user_query =
     (case acquire_model h ld of
        (Inl e, ld1) \<Rightarrow> (Inl e, ld1)
      | (Inr mt, ld1) \<Rightarrow>
          (case generate mt stage1_report confidence_metrics compact_context user_query of
             Inl e \<Rightarrow> (Inl e, ld1)
           | Inr response \<Rightarrow>
               (Stage2Llama_report pyd json_loads response stage1_report confidence_metrics
                  user_query, ld1)))"

subsection \<open>core/orchestrator\_hf.py\<close>

text \<open>
  The context that \<open>build_context\<close> returns: the buckets and the freshness scores. The
  collaborators of \<open>process_query\<close> are parameters: the intent classifier, the context
  builder, the compressor, and for each stage the model hub and the model run.
\<close>

record RawData = Context +
  data_freshness :: "(string \<times> real) list"

record collaborators =
  classify :: "string \<Rightarrow> exc + Intent"
  build_context :: "Intent \<Rightarrow> string \<Rightarrow> exc + RawData"
  compress :: "RawData \<Rightarrow> string \<Rightarrow> Intent \<Rightarrow> exc + string"
  stage1_hub :: hub
  stage1_generate :: "model \<times> tokenizer \<Rightarrow> string \<Rightarrow> Intent \<Rightarrow> exc + analysis_fields"
  stage2_hub :: hub
  stage2_generate ::
    "model \<times> tokenizer \<Rightarrow> AgentOutput \<Rightarrow> (string \<times> real) list \<Rightarrow> string \<Rightarrow> string \<Rightarrow> exc + string"
  validation :: pydantic
  json_loads :: "string \<Rightarrow> exc + jv"

text \<open>The body of the \<open>try\<close> block of \<open>process_query\<close>.\<close>

definition process_query_body ::
    "collaborators \<Rightarrow> ModelLoader \<Rightarrow> string \<Rightarrow> (exc + FinalReport) \<times> ModelLoader" where
  "process_query_body c ld user_query =
     (case classify c user_query of
        Inl e \<Rightarrow> (Inl e, ld)
      | Inr intent \<Rightarrow>
     (case build_context c intent user_query of
        Inl e \<Rightarrow> (Inl e, ld)
      | Inr raw_data \<Rightarrow>
     (case compress c raw_data user_query intent of
        Inl e \<Rightarrow> (Inl e, ld)
      | Inr compact_context \<Rightarrow>
     (case Stage1Mistral_analyze (stage1_hub c) (stage1_generate c) ld compact_context intent of
        (Inl e, ld1) \<Rightarrow> (Inl e, ld1)
      | (Inr stage1_report, ld1) \<Rightarrow>
          let ld2 = unload_model ld1;
              confidence_map = compute_dynamic_confidence [stage1_report] (Some 0.95)
                                 (Some (data_freshness raw_data))
          in (case Stage2Llama_synthesize (stage2_hub c) (stage2_generate c) (validation c)
                     (json_loads c) ld2 stage1_report confidence_map
                     (take 500 compact_context) user_query of
                (Inl e, ld3) \<Rightarrow> (Inl e, ld3)
              | (Inr final_report, ld3) \<Rightarrow> (Inr final_report, unload_model ld3))))))"

text \<open>
  \<open>process_query\<close>: an exception of the body is caught, the model is unloaded and the
  exception is raised again.
\<close>

definition process_query ::
    "collaborators \<Rightarrow> ModelLoader \<Rightarrow> string \<Rightarrow> (exc + FinalReport) \<times> ModelLoader" where
  "process_query c ld user_query =
     (case process_query_body c ld user_query of
        (Inl e, ld') \<Rightarrow> (Inl e, unload_model ld')
      | (Inr final_report, ld') \<Rightarrow> (Inr final_report, ld'))"

subsection \<open>Vocabulary of the properties\<close>

text \<open>The load of a model name fails (whatever the loader held before).\<close>

definition load_fails :: "hub \<Rightarrow> string \<Rightarrow> bool" where
  "load_fails h model_name = isl (fst (load_model h new_ModelLoader model_name))"

subsection \<open>Sample data\<close>

text \<open>A hub on which every load succeeds, and one on which only the named model loads.\<close>

definition hub_all :: hub where
  "hub_all =
     \<lparr>tokenizer_from_pretrained = (\<lambda>n. Inr (Tokenizer n)),
      tokenizer_from_pretrained_slow = (\<lambda>n. Inr (Tokenizer n)),
      model_from_pretrained = (\<lambda>n. Inr (Model n))\<rparr>"

definition hub_only :: "string \<Rightarrow> hub" where
  "hub_only name =
     \<lparr>tokenizer_from_pretrained = (\<lambda>n. Inr (Tokenizer n)),
      tokenizer_from_pretrained_slow = (\<lambda>n. Inr (Tokenizer n)),
      model_from_pretrained =
        (\<lambda>n. if n = name then Inr (Model n) else Inl (ExternalError ''gated repository''))\<rparr>"

text \<open>A hub on which no load succeeds.\<close>

definition hub_none :: hub where
  "hub_none =
     \<lparr>tokenizer_from_pretrained = (\<lambda>n. Inl (ExternalError ''offline'')),
      tokenizer_from_pretrained_slow = (\<lambda>n. Inl (ExternalError ''offline'')),
      model_from_pretrained = (\<lambda>n. Inl (ExternalError ''offline''))\<rparr>"

text \<open>
  An answer of the stage-1 run, a response of 300 letters without any JSON object, and a
  \<open>json.loads\<close> that rejects every text.
\<close>

definition sample_answer :: "string \<Rightarrow> analysis_fields" where
  "sample_answer risk =
     \<lparr>answer_risk_level = risk, answer_confidence = 0.8, answer_key_drivers = [''liquidity''],
      answer_reasoning = ''sample''\<rparr>"

definition plain_response :: string where
  "plain_response = replicate 300 (CHR ''a'')"

definition json_rejects :: "string \<Rightarrow> exc + jv" where
  "json_rejects s = Inl (ValueError ''JSONDecodeError'')"

text \<open>
  Collaborators that all succeed, up to the given outcomes of the two model runs; the
  context they build has overall freshness 0.9.
\<close>

definition sample_collaborators :: "(exc + analysis_fields) \<Rightarrow> (exc + string) \<Rightarrow> collaborators" where
  "sample_collaborators run1 run2 =
     \<lparr>classify = (\<lambda>q. Inr \<lparr>assets = [''AAPL''], region = ''US'', analysis_type = ''risk'',
                              time_horizon = ''short'', key_words = []\<rparr>),
      build_context = (\<lambda>i q. Inr \<lparr>market_data = [], macro_data = [], news_data = [],
                                   data_freshness = [(''macro'', 0.9), (''overall'', 0.9)]\<rparr>),
      compress = (\<lambda>raw q i. Inr ''digest''),
      stage1_hub = hub_all,
      stage1_generate = (\<lambda>mt cc i. run1),
      stage2_hub = hub_all,
      stage2_generate = (\<lambda>mt r cm cc q. run2),
      validation = strict_validation,
      json_loads = json_rejects\<rparr>"


text \<open>An analysis result with the given identity, risk level and key drivers.\<close>

definition sample_output :: "string \<Rightarrow> string \<Rightarrow> string list \<Rightarrow> AgentOutput" where
  "sample_output aid risk drivers =
     \<lparr>agent_id = aid, signal_type = ''anomaly'', risk_level = risk, confidence = 1,
      key_drivers = drivers, source_summary = [], reasoning = ''sample''\<rparr>"

section \<open>Properties\<close>

subsection \<open>Freshness score\<close>

text \<open>
  C8. The freshness function is linear in the data age: for a maximal age \<open>M > 0\<close>,
  age 0 scores 1, every age of at least \<open>M\<close> scores 0, age \<open>M / 2\<close> scores exactly
  \<open>1 / 2\<close>, and an age strictly between 0 and \<open>M\<close> scores \<open>1 - age / M\<close>.
\<close>

theorem freshness_linear:
  assumes "0 < M" and "r = (case rt of None \<Rightarrow> now | Some x \<Rightarrow> x)"
  shows "(age_hours r t = 0 \<longrightarrow> calculate_freshness_score t M rt now = 1)
       \<and> (age_hours r t \<ge> real_of_int M \<longrightarrow> calculate_freshness_score t M rt now = 0)
       \<and> (age_hours r t = real_of_int M / 2 \<longrightarrow> calculate_freshness_score t M rt now = 1 / 2)
       \<and> (0 < age_hours r t \<and> age_hours r t < real_of_int M \<longrightarrow>
            calculate_freshness_score t M rt now = 1 - age_hours r t / real_of_int M)"
proof -
  have pos: "0 < real_of_int M" using assms by simp
  have lin: "calculate_freshness_score t M rt now = 1 - age_hours r t / real_of_int M"
    if a: "0 < age_hours r t" "age_hours r t < real_of_int M"
  proof -
    have "0 < age_hours r t / real_of_int M" using a pos by simp
    moreover have "age_hours r t / real_of_int M < 1" using a pos by simp
    ultimately show ?thesis
      using a by (simp add: calculate_freshness_score_def Let_def assms(2)[symmetric])
  qed
  have mid: "calculate_freshness_score t M rt now = 1 / 2"
    if h: "age_hours r t = real_of_int M / 2"
  proof -
    have "0 < age_hours r t" "age_hours r t < real_of_int M" using h pos by simp_all
    from lin[OF this] show ?thesis using h pos by simp
  qed
  show ?thesis
    using pos lin mid by (auto simp: calculate_freshness_score_def Let_def assms(2)[symmetric])
qed

theorem freshness_linear_witness:
  "(0::int) < 24 \<and> age_hours 43200000000 0 = real_of_int 24 / 2
     \<and> calculate_freshness_score 0 24 (Some 43200000000) 0 = 1 / 2
     \<and> calculate_freshness_score 0 24 (Some 0) 0 = 1
     \<and> calculate_freshness_score 0 24 (Some 86400000000) 0 = 0"
  using freshness_linear [where M = 24 and r = 43200000000 and rt = "Some 43200000000" and t = 0 and now = 0]
    freshness_linear [where M = 24 and r = 0 and rt = "Some 0" and t = 0 and now = 0]
    freshness_linear [where M = 24 and r = 86400000000 and rt = "Some 86400000000" and t = 0 and now = 0]
  by (simp add: age_hours_def total_seconds_def)

subsection \<open>Confidence scoring\<close>


lemma map_of_dict_set: "map_of (dict_set d k v) = (map_of d)(k \<mapsto> v)"
  by (induction d) (auto simp: fun_eq_iff)

lemma SOURCE_RELIABILITY_default_val: "SOURCE_RELIABILITY_default = 0.70"
  by (simp add: SOURCE_RELIABILITY_default_def SOURCE_RELIABILITY_def dict_get_def)

lemma reliability_loop_sums:
  "reliability_loop ss (a, b) =
     (a + (\<Sum>s\<leftarrow>ss. dict_get SOURCE_RELIABILITY (source s) 0.70 * reliability s * freshness s),
      b + (\<Sum>s\<leftarrow>ss. freshness s))"
  by (induction ss arbitrary: a b) (simp_all add: SOURCE_RELIABILITY_default_val Let_def algebra_simps)


lemma source_reliability_char:
  assumes "\<forall>s\<in>set ss. 0 \<le> freshness s"
  shows "calculate_source_reliability ss =
     (if ss = [] \<or> (\<Sum>s\<leftarrow>ss. freshness s) = 0 then 0.70
      else (\<Sum>s\<leftarrow>ss. dict_get SOURCE_RELIABILITY (source s) 0.70 * reliability s * freshness s)
            / (\<Sum>s\<leftarrow>ss. freshness s))"
proof -
  have "0 \<le> (\<Sum>s\<leftarrow>ss. freshness s)" using assms by (induction ss) auto
  then show ?thesis
    by (auto simp: calculate_source_reliability_def reliability_loop_sums SOURCE_RELIABILITY_default_val)
qed

lemma confidence_loop_lookup:
  "map_of (confidence_loop outs ff ctx m) a =
     (if \<exists>x\<in>set outs. agent_id x = a
      then (let x = last (filter (\<lambda>x. agent_id x = a) outs)
            in Some (max 0 (min 1 (confidence x * calculate_source_reliability (source_summary x)
                      * calculate_data_freshness x ctx * ff))))
      else map_of m a)"
proof (induction outs arbitrary: m)
  case Nil
  then show ?case by simp
next
  case (Cons x outs)
  show ?case
    by (auto simp: Cons.IH Let_def map_of_dict_set filter_empty_conv)
qed

lemma last_filter_distinct:
  "distinct (map f xs) \<Longrightarrow> x \<in> set xs \<Longrightarrow> last (filter (\<lambda>y. f y = f x) xs) = x"
proof (induction xs)
  case Nil
  then show ?case by simp
next
  case (Cons y ys)
  then show ?case
    by (auto simp: filter_empty_conv image_iff)
qed


text \<open>
  C6. For every analysis result the confidence map holds, under the result's provider
  identity, \<open>clamp01 (base confidence * reliability * data freshness * freshness factor)\<close>
  (of the last result with that identity, which is the result itself when identities are
  distinct), the factor being 0.95 when left out; every score lies in \<open>[0, 1]\<close>; the
  reliability is the freshness-weighted mean of static reliability times source reliability,
  and the constant 0.70 when there is no source or the freshness weights sum to zero.
\<close>

theorem confidence_formula:
  assumes ff: "ff = (case ffo of None \<Rightarrow> 0.95 | Some f \<Rightarrow> f)"
      and ctx: "ctx = (case ctxo of None \<Rightarrow> [] | Some c \<Rightarrow> c)"
      and cm: "cm = compute_dynamic_confidence outs ffo ctxo"
  shows "(\<forall>x\<in>set outs. map_of cm (agent_id x) = Some (
             let y = last (filter (\<lambda>y. agent_id y = agent_id x) outs)
             in clamp01 (confidence y * calculate_source_reliability (source_summary y)
                          * calculate_data_freshness y ctx * ff)))
       \<and> (distinct (map agent_id outs) \<longrightarrow>
            (\<forall>x\<in>set outs. map_of cm (agent_id x) =
               Some (clamp01 (confidence x * calculate_source_reliability (source_summary x)
                               * calculate_data_freshness x ctx * ff))))
       \<and> (\<forall>a v. map_of cm a = Some v \<longrightarrow> 0 \<le> v \<and> v \<le> 1)
       \<and> (\<forall>ss. (\<forall>s\<in>set ss. 0 \<le> freshness s) \<longrightarrow>
            calculate_source_reliability ss =
              (if ss = [] \<or> (\<Sum>s\<leftarrow>ss. freshness s) = 0 then 0.70
               else (\<Sum>s\<leftarrow>ss. dict_get SOURCE_RELIABILITY (source s) 0.70 * reliability s * freshness s)
                      / (\<Sum>s\<leftarrow>ss. freshness s)))"
proof -
  have look: "map_of cm a =
     (if \<exists>x\<in>set outs. agent_id x = a
      then (let x = last (filter (\<lambda>x. agent_id x = a) outs)
            in Some (max 0 (min 1 (confidence x * calculate_source_reliability (source_summary x)
                      * calculate_data_freshness x ctx * ff))))
      else None)" for a
    unfolding cm compute_dynamic_confidence_def ff[symmetric] ctx[symmetric]
    by (simp add: confidence_loop_lookup)
  have p1: "\<forall>x\<in>set outs. map_of cm (agent_id x) = Some (
             let y = last (filter (\<lambda>y. agent_id y = agent_id x) outs)
             in clamp01 (confidence y * calculate_source_reliability (source_summary y)
                          * calculate_data_freshness y ctx * ff))"
    by (auto simp: look clamp01_def Let_def)
  have p2: "distinct (map agent_id outs) \<longrightarrow>
            (\<forall>x\<in>set outs. map_of cm (agent_id x) =
               Some (clamp01 (confidence x * calculate_source_reliability (source_summary x)
                               * calculate_data_freshness x ctx * ff)))"
    using p1 by (simp add: last_filter_distinct Let_def)
  have p3: "\<forall>a v. map_of cm a = Some v \<longrightarrow> 0 \<le> v \<and> v \<le> 1"
    by (auto simp: look Let_def split: if_splits)
  show ?thesis
    using p1 p2 p3 source_reliability_char by blast
qed


theorem confidence_formula_witness:
  "map_of (compute_dynamic_confidence
      [\<lparr>agent_id = ''RiskAgent'', signal_type = ''anomaly'', risk_level = ''high'',
         confidence = 1, key_drivers = [],
         source_summary = [\<lparr>source = ''Reuters'', freshness = 1, reliability = 1\<rparr>],
         reasoning = ''r''\<rparr>] None (Some [(''overall'', 1)])) ''RiskAgent'' = Some 0.9025
   \<and> calculate_source_reliability [\<lparr>source = ''Reuters'', freshness = 1, reliability = 1\<rparr>] = 0.95
   \<and> calculate_source_reliability [\<lparr>source = ''FRED'', freshness = 0, reliability = 1\<rparr>] = 0.70"
  using confidence_formula [where ffo = None and ff = "0.95"
      and ctxo = "Some [(''overall'', 1)]" and ctx = "[(''overall'', 1)]"
      and outs = "[\<lparr>agent_id = ''RiskAgent'', signal_type = ''anomaly'', risk_level = ''high'',
         confidence = 1, key_drivers = [],
         source_summary = [\<lparr>source = ''Reuters'', freshness = 1, reliability = 1\<rparr>],
         reasoning = ''r''\<rparr>]", OF _ _ refl]
  by (simp add: clamp01_def calculate_data_freshness_def dict_get_def SOURCE_RELIABILITY_def)

subsection \<open>Inter-result agreement\<close>

lemma sum_list_real_of_int: "(\<Sum>x\<leftarrow>xs. real_of_int (f x)) = real_of_int (\<Sum>x\<leftarrow>xs. f x)"
  by (induction xs) simp_all

lemma clamp_one_minus_min:
  "0 \<le> s \<Longrightarrow> max 0 (min 1 (1 - min 1 (s / 2))) = clamp01 (1 - s / 2)" for s :: real
  by (auto simp: clamp01_def min_def max_def)

lemma sum_list_squares_nonneg: "0 \<le> (\<Sum>x\<leftarrow>xs. ((f x)::real)\<^sup>2)"
  by (induction xs) simp_all

lemma population_stddev_nonneg: "0 \<le> population_stddev xs"
  unfolding population_stddev_def
  by (intro real_sqrt_ge_zero divide_nonneg_nonneg sum_list_squares_nonneg) simp

lemma sum_list_const_set:
  "\<forall>x\<in>set xs. f x = (c::real) \<Longrightarrow> (\<Sum>x\<leftarrow>xs. f x) = real (length xs) * c"
  by (induction xs) (simp_all add: algebra_simps)

lemma agreement_as_spec:
  assumes "outs \<noteq> []"
  shows "calculate_inter_agent_agreement outs =
           clamp01 (1 - population_stddev (map (\<lambda>x. real_of_int (risk_value x)) outs) / 2)"
proof (cases "length outs < 2")
  case True
  with assms obtain x where "outs = [x]"
    by (cases outs) (auto simp: less_Suc_eq)
  then show ?thesis
    by (simp add: calculate_inter_agent_agreement_def population_stddev_def clamp01_def)
next
  case False
  have "calculate_inter_agent_agreement outs =
          max 0 (min 1 (1 - min 1 (population_stddev (map (\<lambda>x. real_of_int (risk_value x)) outs) / 2)))"
    using False
    by (simp add: calculate_inter_agent_agreement_def population_stddev_def Let_def comp_def
        sum_list_real_of_int)
  also have "\<dots> = clamp01 (1 - population_stddev (map (\<lambda>x. real_of_int (risk_value x)) outs) / 2)"
    by (rule clamp_one_minus_min) (rule population_stddev_nonneg)
  finally show ?thesis .
qed

lemma stddev_const:
  assumes "\<forall>x\<in>set xs. x = c"
  shows "population_stddev xs = 0"
proof (cases "xs = []")
  case True
  then show ?thesis by (simp add: population_stddev_def)
next
  case False
  have s: "sum_list xs = real (length xs) * c"
    using sum_list_const_set[of xs "\<lambda>x. x" c] assms by simp
  have m: "sum_list xs / real (length xs) = c"
    using False by (simp add: s)
  have "(\<Sum>x\<leftarrow>xs. (x - c)\<^sup>2) = real (length xs) * 0"
    by (rule sum_list_const_set) (use assms in auto)
  then show ?thesis
    by (simp add: population_stddev_def m)
qed

text \<open>
  C7. The agreement score is \<open>clamp01 (1 - population standard deviation / 2)\<close> over the
  risk ordinals (low 1, medium 2, high 3, critical 4) of the results, and it is exactly 1
  when at most one result is given or when all results share one risk level.
\<close>

theorem agreement_score:
  "(outs \<noteq> [] \<longrightarrow> calculate_inter_agent_agreement outs =
           clamp01 (1 - population_stddev (map (\<lambda>x. real_of_int (risk_value x)) outs) / 2))
   \<and> (length outs \<le> 1 \<longrightarrow> calculate_inter_agent_agreement outs = 1)
   \<and> ((\<forall>x\<in>set outs. risk_level x = r) \<longrightarrow> calculate_inter_agent_agreement outs = 1)
   \<and> (risk_level x = ''low'' \<longrightarrow> risk_value x = 1)
   \<and> (risk_level x = ''medium'' \<longrightarrow> risk_value x = 2)
   \<and> (risk_level x = ''high'' \<longrightarrow> risk_value x = 3)
   \<and> (risk_level x = ''critical'' \<longrightarrow> risk_value x = 4)"
proof -
  have same: "calculate_inter_agent_agreement outs = 1" if h: "\<forall>x\<in>set outs. risk_level x = r"
  proof (cases "outs = []")
    case True
    then show ?thesis by (simp add: calculate_inter_agent_agreement_def)
  next
    case False
    have "\<forall>v\<in>set (map (\<lambda>x. real_of_int (risk_value x)) outs). v = real_of_int (dict_get risk_levels (lower r) 2)"
      using h by (auto simp: risk_value_def)
    then have "population_stddev (map (\<lambda>x. real_of_int (risk_value x)) outs) = 0"
      by (rule stddev_const)
    then show ?thesis
      using agreement_as_spec[OF False] by (simp add: clamp01_def)
  qed
  have one: "calculate_inter_agent_agreement outs = 1" if "length outs \<le> 1"
    using that by (simp add: calculate_inter_agent_agreement_def)
  have ords: "(risk_level x = ''low'' \<longrightarrow> risk_value x = 1)
   \<and> (risk_level x = ''medium'' \<longrightarrow> risk_value x = 2)
   \<and> (risk_level x = ''high'' \<longrightarrow> risk_value x = 3)
   \<and> (risk_level x = ''critical'' \<longrightarrow> risk_value x = 4)"
    by (simp add: risk_value_def risk_levels_def dict_get_def lower_def lower_char_def)
  show ?thesis
    using same one ords agreement_as_spec by blast
qed


theorem agreement_score_witness:
  "calculate_inter_agent_agreement
     [sample_output ''RiskAgent'' ''high'' [], sample_output ''MacroAgent'' ''high'' []] = 1
   \<and> calculate_inter_agent_agreement [sample_output ''RiskAgent'' ''low'' []] = 1
   \<and> risk_value (sample_output ''RiskAgent'' ''critical'' []) = 4"
  using agreement_score [of "[sample_output ''RiskAgent'' ''high'' [], sample_output ''MacroAgent'' ''high'' []]"
      "''high''" "sample_output ''RiskAgent'' ''critical'' []"]
    agreement_score [of "[sample_output ''RiskAgent'' ''low'' []]" "''low''"
      "sample_output ''RiskAgent'' ''critical'' []"]
  by (simp add: sample_output_def)

subsection \<open>Contradiction detection\<close>

lemma agent_dict_of_lookup:
  "map_of (agent_dict_of outs d) a =
     (if \<exists>x\<in>set outs. agent_id x = a then Some (last (filter (\<lambda>x. agent_id x = a) outs))
      else map_of d a)"
proof (induction outs arbitrary: d)
  case Nil
  then show ?case by simp
next
  case (Cons x outs)
  show ?case
    by (auto simp: Cons.IH map_of_dict_set filter_empty_conv)
qed

lemma rules_loop_keeps:
  "p \<in> set cs \<Longrightarrow> p \<in> set (fst (rules_loop rules d (cs, arb)))"
proof (induction rules arbitrary: cs arb)
  case Nil
  then show ?case by simp
next
  case (Cons r rules)
  obtain a b c where r: "r = ((a, b), c)" by (metis prod.collapse)
  show ?case
    unfolding r using Cons.prems
    by (auto intro!: Cons.IH split: option.splits)
qed

lemma rules_loop_finds:
  assumes "((a, b), c) \<in> set rules" "map_of d a = Some A" "map_of d b = Some B"
    "is_contradictory A B"
  shows "(a, b) \<in> set (fst (rules_loop rules d (cs, arb)))"
  using assms(1)
proof (induction rules arbitrary: cs arb)
  case Nil
  then show ?case by simp
next
  case (Cons r rules)
  obtain a' b' c' where r: "r = ((a', b'), c')" by (metis prod.collapse)
  show ?case
  proof (cases "r = ((a, b), c)")
    case True
    then show ?thesis
      using assms(2-4) by (auto intro!: rules_loop_keeps)
  next
    case False
    with Cons.prems have "((a, b), c) \<in> set rules" by simp
    then show ?thesis
      unfolding r by (auto intro!: Cons.IH split: option.splits)
  qed
qed

lemma low_critical_contradictory:
  "lower (risk_level A) = ''low'' \<Longrightarrow> lower (risk_level B) = ''critical'' \<Longrightarrow> is_contradictory A B"
  by (simp add: is_contradictory_def RISK_LEVELS_def dict_get_def)

text \<open>
  C5 (as amended). When no two results share a provider identity, a result A with risk
  level low and a result B with risk level critical whose identities are paired by a
  contradiction rule make \<open>check_contradictions\<close> return one event whose conflicting
  identities contain both A's and B's.
\<close>

theorem low_critical_event:
  assumes d: "distinct (map agent_id outs)"
      and A: "A \<in> set outs" "risk_level A = ''low''"
      and B: "B \<in> set outs" "risk_level B = ''critical''"
      and r: "(agent_id A, agent_id B) \<in> fst ` set CONTRADICTION_RULES"
  shows "\<exists>ev. check_contradictions outs = Some ev
            \<and> agent_id A \<in> conflicting_agents ev \<and> agent_id B \<in> conflicting_agents ev"
proof -
  have ne: "A \<noteq> B" using A(2) B(2) by auto
  have len: "\<not> length outs < 2"
  proof
    assume "length outs < 2"
    then have "outs = [] \<or> (\<exists>x. outs = [x])"
      by (cases outs) (auto simp: less_Suc_eq)
    with A(1) B(1) ne show False by auto
  qed
  have la: "map_of (agent_dict_of outs []) (agent_id A) = Some A"
    using A(1) d by (auto simp: agent_dict_of_lookup last_filter_distinct)
  have lb: "map_of (agent_dict_of outs []) (agent_id B) = Some B"
    using B(1) d by (auto simp: agent_dict_of_lookup last_filter_distinct)
  have con: "is_contradictory A B"
    by (rule low_critical_contradictory) (simp_all add: A(2) B(2) lower_def lower_char_def)
  from r obtain c where "((agent_id A, agent_id B), c) \<in> set CONTRADICTION_RULES" by force
  from rules_loop_finds[OF this la lb con]
  have mem: "(agent_id A, agent_id B)
               \<in> set (fst (rules_loop CONTRADICTION_RULES (agent_dict_of outs []) ([], None)))" .
  obtain cs arb where res: "rules_loop CONTRADICTION_RULES (agent_dict_of outs []) ([], None) = (cs, arb)"
    by (metis prod.collapse)
  with mem have m: "(agent_id A, agent_id B) \<in> set cs" by simp
  then have "cs \<noteq> []" by auto
  with m show ?thesis
    using len by (force simp: check_contradictions_def res Let_def)
qed


theorem low_critical_event_witness:
  "\<exists>ev. check_contradictions
           [sample_output ''RiskAgent'' ''low'' [], sample_output ''TechnicalAgent'' ''critical'' []] = Some ev
        \<and> ''RiskAgent'' \<in> conflicting_agents ev \<and> ''TechnicalAgent'' \<in> conflicting_agents ev"
  using low_critical_event [of "[sample_output ''RiskAgent'' ''low'' [], sample_output ''TechnicalAgent'' ''critical'' []]"
      "sample_output ''RiskAgent'' ''low'' []" "sample_output ''TechnicalAgent'' ''critical'' []"]
  by (simp add: sample_output_def CONTRADICTION_RULES_def)

text \<open>
  C5 as stated fails: a low result of RiskAgent and a critical result of MacroAgent are
  paired by no rule, and a later result of the same identity replaces an earlier one;
  no event is returned in either case.
\<close>

theorem low_critical_counterexample:
  "check_contradictions
     [sample_output ''RiskAgent'' ''low'' [], sample_output ''MacroAgent'' ''critical'' []] = None
   \<and> check_contradictions
     [sample_output ''RiskAgent'' ''low'' [], sample_output ''TechnicalAgent'' ''critical'' [],
      sample_output ''RiskAgent'' ''critical'' []] = None"
  by (simp add: check_contradictions_def is_contradictory_def CONTRADICTION_RULES_def RISK_LEVELS_def
      opposite_pairs_def dict_get_def lower_def lower_char_def sample_output_def Let_def)

subsection \<open>Context assembly\<close>

lemma categorize_failed:
  "\<forall>r\<in>set results. failed_result r \<Longrightarrow> categorize results ctxt = ctxt"
proof (induction results arbitrary: ctxt)
  case Nil
  then show ?case by simp
next
  case (Cons r results)
  then have "failed_result r" by simp
  then have "categorize_result r ctxt = ctxt"
    by (cases "(r, ctxt)" rule: categorize_result.cases) auto
  with Cons show ?case by simp
qed

text \<open>
  C10. A payload dictionary with an \<open>error\<close> key is discarded whatever else it holds; the
  payloads of a failed macro fetch (\<open>error\<close>, \<open>region\<close>) and of a failed news fetch
  (\<open>error\<close>, \<open>results\<close>) are such payloads, and when every branch failed the buckets keep
  their empty defaults.
\<close>

theorem error_payload_discarded:
  "(has_key ''error'' result \<longrightarrow> categorize_result (Returned (JDict result)) ctxt = ctxt)
   \<and> categorize_result (Returned (get_macro_data reg (Inl e))) ctxt = ctxt
   \<and> categorize_result (Returned (get_news_data (Inl e))) ctxt = ctxt
   \<and> ((\<forall>r\<in>set results. failed_result r) \<longrightarrow> categorize results empty_context = empty_context)"
  using categorize_failed [of results empty_context]
  by (simp add: get_macro_data_def get_news_data_def has_key_def)

theorem error_payload_discarded_witness:
  "has_key ''error'' [(''error'', JStr ''timeout''), (''region'', JStr ''US'')]
   \<and> categorize_result (Returned (JDict [(''error'', JStr ''timeout''), (''region'', JStr ''US'')]))
        empty_context = empty_context
   \<and> categorize
        [Returned (get_market_data ''AAPL'' (Inl (ExternalError ''timeout''))),
         Returned (get_macro_data ''US'' (Inl (ExternalError ''timeout''))),
         Returned (get_news_data (Inl (ExternalError ''timeout'')))] empty_context = empty_context"
  using error_payload_discarded [of "[(''error'', JStr ''timeout''), (''region'', JStr ''US'')]"
      empty_context "''US''" "ExternalError ''timeout''"
      "[Returned (get_market_data ''AAPL'' (Inl (ExternalError ''timeout''))),
        Returned (get_macro_data ''US'' (Inl (ExternalError ''timeout''))),
        Returned (get_news_data (Inl (ExternalError ''timeout'')))]"]
  by (simp add: get_market_data_def get_macro_data_def get_news_data_def has_key_def)

subsection \<open>Rate limiting\<close>

text \<open>
  C1. The quota of 5 calls per 60 seconds registered by the market provider is overrun
  when two callers suspend together: after calls at 0, 10, 20, 30 and 40 seconds, two
  callers arriving at 50 seconds both find the history full, both sleep until 60.1
  seconds and both record their call on waking, without looking at the history again.
  The window from 0.1 to 60.1 seconds then holds 6 recorded calls.
\<close>

theorem rate_limit_overrun:
  "map_option (\<lambda>s. (call_history (limiter s) ''alpha_vantage'', sleepers s))
     (loop_run \<lparr>limiter = add_limit new_rate_limiter ''alpha_vantage'' 5 60, clock = 0, sleepers = []\<rparr>
        [Call ''alpha_vantage'' 0, Call ''alpha_vantage'' 10, Call ''alpha_vantage'' 20,
         Call ''alpha_vantage'' 30, Call ''alpha_vantage'' 40,
         Call ''alpha_vantage'' 50, Call ''alpha_vantage'' 50,
         Wake 0 60.1, Wake 0 60.1])
   = Some ([0, 10, 20, 30, 40, 60.1, 60.1], [])
   \<and> calls_in_window [0, 10, 20, 30, 40, 60.1, 60.1] 0.1 60 = 6"
  by (simp add: add_limit_def new_rate_limiter_def wait_enter_def wait_record_def Let_def
      calls_in_window_def)

subsection \<open>Loading with fallback\<close>

lemma load_model_fail:
  "load_model h ld n = (Inl e, ld') \<Longrightarrow> load_fails h n \<and> current_model ld' = None"
  by (auto simp: load_model_def load_fails_def unload_model_def Let_def new_ModelLoader_def
      split: sum.splits if_splits)

lemma load_model_ok:
  "load_model h ld n = (Inr mt, ld') \<Longrightarrow>
     \<not> load_fails h n \<and> current_model_name ld' = Some n
       \<and> current_model ld' = Some (fst mt) \<and> current_tokenizer ld' = Some (snd mt)"
  by (auto simp: load_model_def load_fails_def unload_model_def Let_def new_ModelLoader_def
      split: sum.splits if_splits)

lemma fallback_loop_result:
  "fallback_loop h names ld tried0 = (res, tried, ld') \<Longrightarrow>
     (res = None \<longrightarrow> (\<forall>n\<in>set names. load_fails h n) \<and> tried = tried0 @ names)
   \<and> (\<forall>n. res = Some n \<longrightarrow>
         (\<exists>pre post. names = pre @ n # post \<and> (\<forall>m\<in>set pre. load_fails h m) \<and> \<not> load_fails h n
            \<and> tried = tried0 @ pre @ [n] \<and> current_model_name ld' = Some n
            \<and> get_current_model ld' \<noteq> None))"
proof (induction names arbitrary: ld tried0)
  case Nil
  then show ?case by simp
next
  case (Cons a names)
  obtain r l where lm: "load_model h ld a = (r, l)" by (metis prod.collapse)
  show ?case
  proof (cases r)
    case (Inl e)
    with lm Cons.prems have rec: "fallback_loop h names l (tried0 @ [a]) = (res, tried, ld')"
      by simp
    from load_model_fail lm Inl have fa: "load_fails h a" by blast
    from Cons.IH[OF rec] have ih:
      "(res = None \<longrightarrow> (\<forall>n\<in>set names. load_fails h n) \<and> tried = (tried0 @ [a]) @ names)"
      "\<And>n. res = Some n \<Longrightarrow>
         (\<exists>pre post. names = pre @ n # post \<and> (\<forall>m\<in>set pre. load_fails h m) \<and> \<not> load_fails h n
            \<and> tried = (tried0 @ [a]) @ pre @ [n] \<and> current_model_name ld' = Some n
            \<and> get_current_model ld' \<noteq> None)"
      by blast+
    have "\<exists>pre post. a # names = pre @ n # post \<and> (\<forall>m\<in>set pre. load_fails h m) \<and> \<not> load_fails h n
            \<and> tried = tried0 @ pre @ [n] \<and> current_model_name ld' = Some n
            \<and> get_current_model ld' \<noteq> None" if "res = Some n" for n
    proof -
      from ih(2)[OF that] obtain pre post where
        p: "names = pre @ n # post" "\<forall>m\<in>set pre. load_fails h m" "\<not> load_fails h n"
           "tried = (tried0 @ [a]) @ pre @ [n]" "current_model_name ld' = Some n"
           "get_current_model ld' \<noteq> None"
        by blast
      show ?thesis
        by (rule exI[of _ "a # pre"], rule exI[of _ post]) (use p fa in simp)
    qed
    with ih(1) fa show ?thesis by simp
  next
    case (Inr mt)
    with lm Cons.prems have eq: "res = Some a" "tried = tried0 @ [a]" "ld' = l"
      by simp_all
    from load_model_ok lm Inr have ok: "\<not> load_fails h a" "current_model_name l = Some a"
      "current_model l = Some (fst mt)" "current_tokenizer l = Some (snd mt)"
      by blast+
    have "\<exists>pre post. a # names = pre @ a # post \<and> (\<forall>m\<in>set pre. load_fails h m) \<and> \<not> load_fails h a
            \<and> tried = tried0 @ pre @ [a] \<and> current_model_name ld' = Some a
            \<and> get_current_model ld' \<noteq> None"
      by (rule exI[of _ "[]"], rule exI[of _ names])
         (use eq ok in \<open>simp add: get_current_model_def\<close>)
    with eq show ?thesis by simp
  qed
qed


text \<open>
  C4. When no model is resident, the acquisition of the stage-2 model tries the model
  names in their order and stops at the first one that loads: the names tried are those
  before it, which all failed, and itself, and it is resident afterwards. The acquisition
  raises if and only if every name fails to load, and then the error is the fatal
  \<open>RuntimeError\<close>.
\<close>

theorem fallback_loading:
  assumes nl: "\<not> is_model_loaded ld None"
  shows "((\<exists>e. fst (acquire_model h ld) = Inl e) \<longleftrightarrow> (\<forall>n\<in>set MODEL_NAMES. load_fails h n))
       \<and> (\<forall>e. fst (acquire_model h ld) = Inl e \<longrightarrow> e = none_loaded)
       \<and> (\<forall>names res tried ld'. fallback_loop h names ld [] = (res, tried, ld') \<longrightarrow>
            (res = None \<longleftrightarrow> (\<forall>n\<in>set names. load_fails h n))
          \<and> (\<forall>n. res = Some n \<longrightarrow>
                (\<exists>pre post. names = pre @ n # post \<and> (\<forall>m\<in>set pre. load_fails h m)
                   \<and> \<not> load_fails h n \<and> tried = pre @ [n] \<and> is_model_loaded ld' (Some n))))"
proof -
  have loop: "(res = None \<longleftrightarrow> (\<forall>n\<in>set names. load_fails h n))
          \<and> (\<forall>n. res = Some n \<longrightarrow>
                (\<exists>pre post. names = pre @ n # post \<and> (\<forall>m\<in>set pre. load_fails h m)
                   \<and> \<not> load_fails h n \<and> tried = pre @ [n] \<and> is_model_loaded ld' (Some n)))"
    if run: "fallback_loop h names ld [] = (res, tried, ld')" for names res tried ld'
  proof -
    note r = fallback_loop_result[OF run]
    have some: "\<exists>pre post. names = pre @ n # post \<and> (\<forall>m\<in>set pre. load_fails h m)
                   \<and> \<not> load_fails h n \<and> tried = pre @ [n] \<and> is_model_loaded ld' (Some n)"
      if "res = Some n" for n
      using r that by (auto simp: is_model_loaded_def)
    have "res = None" if all: "\<forall>n\<in>set names. load_fails h n"
    proof (cases res)
      case None
      then show ?thesis .
    next
      case (Some n)
      from some[OF Some] obtain pre post where "names = pre @ n # post" "\<not> load_fails h n"
        by blast
      with all show ?thesis by auto
    qed
    with r some show ?thesis by blast
  qed
  obtain res tried ld' where run: "fallback_loop h MODEL_NAMES ld [] = (res, tried, ld')"
    by (metis prod.collapse)
  note r = fallback_loop_result[OF run]
  note l = loop[OF run]
  have acq: "fst (acquire_model h ld) = (if res = None then Inl none_loaded
                else case get_current_model ld' of None \<Rightarrow> Inl (RuntimeError ''Model yuklenemedi!'')
                     | Some mt \<Rightarrow> Inr mt)"
    using nl by (auto simp: acquire_model_def run split: option.splits)
  have ok: "\<exists>mt. fst (acquire_model h ld) = Inr mt" if "res \<noteq> None"
    using that r acq by (auto split: option.splits)
  have a1: "(\<exists>e. fst (acquire_model h ld) = Inl e) \<longleftrightarrow> (\<forall>n\<in>set MODEL_NAMES. load_fails h n)"
  proof (cases "res = None")
    case True
    then show ?thesis using acq l by simp
  next
    case False
    from ok[OF False] have "\<not> (\<exists>e. fst (acquire_model h ld) = Inl e)" by auto
    with False l show ?thesis by blast
  qed
  have a2: "\<forall>e. fst (acquire_model h ld) = Inl e \<longrightarrow> e = none_loaded"
  proof (cases "res = None")
    case True
    then show ?thesis using acq by simp
  next
    case False
    from ok[OF False] show ?thesis by auto
  qed
  show ?thesis
    using a1 a2 loop by blast
qed


theorem fallback_loading_witness:
  "\<not> is_model_loaded new_ModelLoader None
   \<and> fst (acquire_model hub_none new_ModelLoader) = Inl none_loaded
   \<and> list_all (load_fails hub_none) MODEL_NAMES
   \<and> fst (acquire_model (hub_only ''microsoft/Phi-3-medium-4k-instruct'') new_ModelLoader)
       = Inr (Model ''microsoft/Phi-3-medium-4k-instruct'', Tokenizer ''microsoft/Phi-3-medium-4k-instruct'')
   \<and> fst (snd (fallback_loop (hub_only ''microsoft/Phi-3-medium-4k-instruct'') MODEL_NAMES new_ModelLoader []))
       = [''mistralai/Mistral-7B-Instruct-v0.2'', ''mistralai/Mistral-7B-v0.3'',
          ''microsoft/Phi-3-medium-4k-instruct'']"
  using fallback_loading [of new_ModelLoader hub_none]
  by (simp add: hub_only_def hub_none_def load_model_def unload_model_def load_fails_def
      new_ModelLoader_def is_model_loaded_def get_current_model_def acquire_model_def MODEL_NAMES_def
      Let_def)

subsection \<open>Unloading on failure\<close>

lemma unload_model_unloaded: "\<not> is_model_loaded (unload_model ld) None"
  by (simp add: unload_model_def is_model_loaded_def)

text \<open>
  C3. When the stage-1 analysis raises an exception, \<open>process_query\<close> raises that same
  exception, and the loader it leaves reports no model loaded.
\<close>

theorem stage1_failure_unloads:
  assumes "classify c q = Inr intent"
      and "build_context c intent q = Inr raw"
      and "compress c raw q intent = Inr cc"
      and "Stage1Mistral_analyze (stage1_hub c) (stage1_generate c) ld cc intent = (Inl e, ld1)"
  shows "fst (process_query c ld q) = Inl e \<and> \<not> is_model_loaded (snd (process_query c ld q)) None"
  using assms
  by (simp add: process_query_def process_query_body_def unload_model_unloaded)


theorem stage1_failure_unloads_witness:
  "Stage1Mistral_analyze hub_all (\<lambda>mt cc i. Inl (ExternalError ''CUDA out of memory'')) new_ModelLoader
      ''digest'' \<lparr>assets = [''AAPL''], region = ''US'', analysis_type = ''risk'',
                  time_horizon = ''short'', key_words = []\<rparr>
     = (Inl (ExternalError ''CUDA out of memory''),
        \<lparr>current_model = Some (Model ''mistralai/Mistral-7B-v0.3''),
         current_tokenizer = Some (Tokenizer ''mistralai/Mistral-7B-v0.3''),
         current_model_name = Some ''mistralai/Mistral-7B-v0.3''\<rparr>)
   \<and> process_query (sample_collaborators (Inl (ExternalError ''CUDA out of memory'')) (Inr []))
        new_ModelLoader ''q''
     = (Inl (ExternalError ''CUDA out of memory''), new_ModelLoader)"
proof -
  have a: "Stage1Mistral_analyze hub_all (\<lambda>mt cc i. Inl (ExternalError ''CUDA out of memory'')) new_ModelLoader
      ''digest'' \<lparr>assets = [''AAPL''], region = ''US'', analysis_type = ''risk'',
                  time_horizon = ''short'', key_words = []\<rparr>
     = (Inl (ExternalError ''CUDA out of memory''),
        \<lparr>current_model = Some (Model ''mistralai/Mistral-7B-v0.3''),
         current_tokenizer = Some (Tokenizer ''mistralai/Mistral-7B-v0.3''),
         current_model_name = Some ''mistralai/Mistral-7B-v0.3''\<rparr>)"
    by (simp add: Stage1Mistral_analyze_def Stage1Mistral_MODEL_NAME_def hub_all_def load_model_def
        new_ModelLoader_def is_model_loaded_def get_current_model_def Let_def)
  have "fst (process_query (sample_collaborators (Inl (ExternalError ''CUDA out of memory'')) (Inr []))
        new_ModelLoader ''q'') = Inl (ExternalError ''CUDA out of memory'')
     \<and> \<not> is_model_loaded (snd (process_query (sample_collaborators (Inl (ExternalError ''CUDA out of memory'')) (Inr []))
        new_ModelLoader ''q'')) None"
    by (rule stage1_failure_unloads[where cc = "''digest''"
          and intent = "\<lparr>assets = [''AAPL''], region = ''US'', analysis_type = ''risk'',
                  time_horizon = ''short'', key_words = []\<rparr>"
          and raw = "\<lparr>market_data = [], macro_data = [], news_data = [],
                                   data_freshness = [(''macro'', 0.9), (''overall'', 0.9)]\<rparr>"
          and ?ld1.0 = "\<lparr>current_model = Some (Model ''mistralai/Mistral-7B-v0.3''),
         current_tokenizer = Some (Tokenizer ''mistralai/Mistral-7B-v0.3''),
         current_model_name = Some ''mistralai/Mistral-7B-v0.3''\<rparr>"])
       (simp_all add: sample_collaborators_def a)
  moreover have "snd (process_query (sample_collaborators (Inl (ExternalError ''CUDA out of memory'')) (Inr []))
        new_ModelLoader ''q'') = new_ModelLoader"
    by (simp add: process_query_def process_query_body_def sample_collaborators_def a
        unload_model_def, simp add: new_ModelLoader_def)
  ultimately show ?thesis
    using a by (simp add: prod_eq_iff)
qed

subsection \<open>The synthesized report\<close>

lemma stage1_agent_id:
  "Stage1Mistral_analyze h g ld cc i = (Inr r, ld1) \<Longrightarrow> agent_id r = ''Stage1Mistral''"
  by (auto simp: Stage1Mistral_analyze_def split: if_splits prod.splits sum.splits option.splits)

lemma single_confidence_keys:
  "map fst (compute_dynamic_confidence [r] ff ctx) = [agent_id r]"
  by (simp add: compute_dynamic_confidence_def Let_def)

lemma dict_get_absent: "k \<notin> set (map fst d) \<Longrightarrow> dict_get d k dflt = dflt"
  by (simp add: dict_get_def map_of_eq_None_iff[THEN iffD2])

lemma new_FinalReport_fields:
  "new_FinalReport pyd q risk conf rat plan contributions dfs warn = Inr report \<Longrightarrow>
     data_freshness_score report = dfs \<and> action_plan report = plan"
  by (auto simp: new_FinalReport_def split: option.splits if_splits prod.splits)

lemma Stage2Llama_report_fields:
  assumes "Stage2Llama_report pyd jl response r cm q = Inr report"
  shows "data_freshness_score report = dict_get cm ''data_freshness'' 0.5
       \<and> (\<exists>sr. parse_llm_response jl response = JDict sr
             \<and> Stage2Llama_parse_action_plan (Some (risk_level r))
                  (dict_get sr ''action_plan'' (JList [])) = Inr (action_plan report))"
proof -
  from assms obtain sr where sr: "parse_llm_response jl response = JDict sr"
    by (auto simp: Stage2Llama_report_def split: jv.splits)
  from assms sr obtain plan where
    plan: "Stage2Llama_parse_action_plan (Some (risk_level r))
             (dict_get sr ''action_plan'' (JList [])) = Inr plan"
    by (auto simp: Stage2Llama_report_def split: sum.splits)
  from assms sr plan have "new_FinalReport pyd q
                 (dict_get sr ''final_risk_level'' (JStr ''medium''))
                 (dict_get sr ''overall_confidence'' (JNum 0.5))
                 (dict_get sr ''strategic_rationale'' (JStr response))
                 plan [r]
                 (dict_get cm ''data_freshness'' 0.5)
                 (dict_get sr ''warnings'' (JList [])) = Inr report"
    by (simp add: Stage2Llama_report_def)
  from new_FinalReport_fields[OF this] sr plan show ?thesis by simp
qed

lemma Stage2Llama_synthesize_report:
  "Stage2Llama_synthesize h g pyd jl ld r cm cc q = (Inr report, ld') \<Longrightarrow>
     \<exists>response. Stage2Llama_report pyd jl response r cm q = Inr report"
  by (auto simp: Stage2Llama_synthesize_def split: prod.splits sum.splits)

text \<open>
  C9. Every report that \<open>process_query\<close> returns in Mode B has \<open>data_freshness_score\<close>
  0.5: the confidence map of the single stage-1 result has the one key
  \<open>Stage1Mistral\<close>, so that the lookup of \<open>data_freshness\<close> takes its default, whatever
  the freshness of the context.
\<close>

theorem mode_b_freshness_constant:
  "(process_query c ld q = (Inr report, ld') \<longrightarrow> data_freshness_score report = 0.5)
   \<and> (Stage1Mistral_analyze h g ld cc i = (Inr r, ld1) \<longrightarrow>
        map fst (compute_dynamic_confidence [r] ff ctx) = [''Stage1Mistral''])"
proof -
  have "data_freshness_score report = 0.5" if run: "process_query c ld q = (Inr report, ld')"
  proof -
    from run obtain l where body: "process_query_body c ld q = (Inr report, l)"
      by (auto simp: process_query_def split: prod.splits sum.splits)
    then have "\<exists>r' l1 l3 cc' (raw :: RawData) i'.
        Stage1Mistral_analyze (stage1_hub c) (stage1_generate c) ld cc' i' = (Inr r', l1)
      \<and> Stage2Llama_synthesize (stage2_hub c) (stage2_generate c) (validation c) (json_loads c)
                 (unload_model l1) r'
                 (compute_dynamic_confidence [r'] (Some 0.95) (Some (data_freshness raw)))
                 (take 500 cc') q = (Inr report, l3)"
      unfolding process_query_body_def Let_def
      by (simp split: prod.splits sum.splits) blast
    then obtain r' l1 l3 cc' and raw :: RawData and i' where
      s1: "Stage1Mistral_analyze (stage1_hub c) (stage1_generate c) ld cc' i' = (Inr r', l1)"
      and s2: "Stage2Llama_synthesize (stage2_hub c) (stage2_generate c) (validation c) (json_loads c)
                 (unload_model l1) r'
                 (compute_dynamic_confidence [r'] (Some 0.95) (Some (data_freshness raw)))
                 (take 500 cc') q = (Inr report, l3)"
      by blast
    from Stage2Llama_synthesize_report[OF s2] obtain response where
      "Stage2Llama_report (validation c) (json_loads c) response r'
         (compute_dynamic_confidence [r'] (Some 0.95) (Some (data_freshness raw))) q = Inr report"
      by blast
    from Stage2Llama_report_fields[OF this]
    have "data_freshness_score report =
            dict_get (compute_dynamic_confidence [r'] (Some 0.95) (Some (data_freshness raw)))
              ''data_freshness'' 0.5"
      by simp
    also have "\<dots> = 0.5"
      by (rule dict_get_absent) (simp add: single_confidence_keys stage1_agent_id[OF s1])
    finally show ?thesis .
  qed
  then show ?thesis
    by (auto simp: single_confidence_keys dest: stage1_agent_id)
qed

lemma str_contains_subset: "str_contains w s \<Longrightarrow> set w \<subseteq> set s"
proof (induction s)
  case Nil
  then show ?case by simp
next
  case (Cons c cs)
  have sw: "starts_with u v \<Longrightarrow> set u \<subseteq> set v" for u v
    by (induction u v rule: starts_with.induct) auto
  from Cons show ?case
    using sw[of w "c # cs"] by auto
qed

lemma no_keyword: "c \<in> set w \<Longrightarrow> c \<noteq> x \<Longrightarrow> \<not> str_contains w (replicate n x)"
  using str_contains_subset[of w "replicate n x"] by (meson in_set_replicate subsetD)

lemma parse_plain_text:
  "parse_llm_response jl plain_response =
     JDict [(''final_risk_level'', JStr ''medium''), (''overall_confidence'', JNum 0.6),
            (''strategic_rationale'', JStr plain_response), (''action_plan'', JList []),
            (''warnings'', JList [])]"
proof -
  have l: "lower (replicate 300 (CHR ''a'')) = replicate 300 (CHR ''a'')"
    by (simp add: lower_def lower_char_def)
  have k: "\<not> str_contains w (replicate 300 (CHR ''a''))" if "w \<noteq> []" "hd w \<noteq> CHR ''a''" for w
    using no_keyword[of "hd w" w "CHR ''a''" 300] that by simp
  show ?thesis
    using k by (simp add: plain_response_def parse_llm_response_def find_char_def
        parse_text_response_def l Let_def)
qed


lemma plain_report:
  "Stage2Llama_report strict_validation jl plain_response r cm q =
     (if 0 \<le> dict_get cm ''data_freshness'' 0.5 \<and> dict_get cm ''data_freshness'' 0.5 \<le> 1 then
        Inr \<lparr>query = q, final_risk_level = ''medium'', overall_confidence = 0.6,
             strategic_rationale = plain_response,
             action_plan = (if risk_level r \<in> {''critical'', ''high''} then [default_plan_high] else []),
             agent_contributions = [r],
             data_freshness_score = dict_get cm ''data_freshness'' 0.5, warnings = []\<rparr>
      else Inl validation_error)"
  by (simp add: Stage2Llama_report_def parse_plain_text dict_get_def
      Stage2Llama_parse_action_plan_def new_FinalReport_def strict_validation_def)
     (simp add: plain_response_def)

lemma sample_run:
  "process_query (sample_collaborators (Inr (sample_answer risk)) (Inr plain_response)) new_ModelLoader q =
     (Stage2Llama_report strict_validation json_rejects plain_response
        \<lparr>agent_id = ''Stage1Mistral'', signal_type = ''anomaly'', risk_level = risk,
          confidence = 0.8, key_drivers = [''liquidity''], source_summary = [],
          reasoning = ''sample''\<rparr>
        (compute_dynamic_confidence
           [\<lparr>agent_id = ''Stage1Mistral'', signal_type = ''anomaly'', risk_level = risk,
              confidence = 0.8, key_drivers = [''liquidity''], source_summary = [],
              reasoning = ''sample''\<rparr>] (Some 0.95) (Some [(''macro'', 0.9), (''overall'', 0.9)])) q,
      new_ModelLoader)"
  by (simp add: process_query_def process_query_body_def sample_collaborators_def sample_answer_def
      Stage1Mistral_analyze_def Stage1Mistral_MODEL_NAME_def hub_all_def load_model_def
      unload_model_def new_ModelLoader_def is_model_loaded_def get_current_model_def
      Stage2Llama_synthesize_def acquire_model_def MODEL_NAMES_def Let_def plain_report
      split: sum.splits)


theorem mode_b_freshness_constant_witness:
  "map_sum id data_freshness_score
     (fst (process_query (sample_collaborators (Inr (sample_answer ''medium'')) (Inr plain_response))
             new_ModelLoader ''q'')) = Inr 0.5"
proof -
  obtain res ld' where run:
    "process_query (sample_collaborators (Inr (sample_answer ''medium'')) (Inr plain_response))
       new_ModelLoader ''q'' = (res, ld')"
    by (metis prod.collapse)
  have "\<not> isl res"
    using run by (auto simp: sample_run plain_report compute_dynamic_confidence_def dict_get_def Let_def)
  then obtain report where "res = Inr report"
    by (cases res) auto
  with run mode_b_freshness_constant [of "sample_collaborators (Inr (sample_answer ''medium'')) (Inr plain_response)"
      new_ModelLoader "''q''" report ld']
  show ?thesis by simp
qed

text \<open>
  C2. The Mode B pipeline completes with an empty \<open>action_plan\<close> when the response of
  the model is plain text, which supplies no action plan, and the stage-1 risk level is
  medium: \<open>_parse_action_plan\<close> returns from its branch for an empty plan before the
  default entry at its end, and adds an entry in that branch only for a critical or high
  risk level. The same function does synthesize a default entry for a high risk level
  and for a supplied plan none of whose items yields an entry.
\<close>

theorem action_plan_default_missing:
  "map_sum id action_plan
     (fst (process_query (sample_collaborators (Inr (sample_answer ''medium'')) (Inr plain_response))
             new_ModelLoader ''q'')) = Inr []
   \<and> Stage2Llama_parse_action_plan (Some ''medium'') (JList []) = Inr []
   \<and> Stage2Llama_parse_action_plan (Some ''high'') (JList []) = Inr [default_plan_high]
   \<and> Stage2Llama_parse_action_plan (Some ''medium'') (JList [JNum 1]) = Inr [default_plan_medium]"
  by (simp add: sample_run plain_report dict_get_def compute_dynamic_confidence_def Let_def
      Stage2Llama_parse_action_plan_def)

end
